theory Spec2Isabelle
  imports Complex_Main "HOL-Library.Sublist" "HOL-Library.Word"
begin

section \<open>Python values\<close>

text \<open>
  Python floats are modelled as exact reals, Python integers as \<open>int\<close>, and a
  \<open>datetime\<close> as the number of seconds since the epoch, so that
  \<open>timedelta(minutes=m)\<close> is \<open>m * 60\<close> seconds and \<open>timedelta(hours=h)\<close> is \<open>h * 3600\<close>
  seconds.
  Every function that reads the clock takes the reading as its argument \<open>now\<close>; one
  call is evaluated at one instant.
\<close>

type_synonym datetime = real

text \<open>\<open>round(x, n)\<close>: the nearest multiple of \<open>10^-n\<close>, ties to the even one.\<close>

definition round_half_even :: "real \<Rightarrow> int" where
  "round_half_even x =
     (let f = \<lfloor>x\<rfloor> in
      if frac x < 1 / 2 then f
      else if 1 / 2 < frac x then f + 1
      else if even f then f else f + 1)"

definition py_round :: "real \<Rightarrow> nat \<Rightarrow> real" where
  "py_round x n = of_int (round_half_even (x * 10 ^ n)) / 10 ^ n"

text \<open>\<open>str(n)\<close> for integers.\<close>

definition digit_char :: "nat \<Rightarrow> char" where
  "digit_char d = char_of (48 + d)"

fun show_nat :: "nat \<Rightarrow> string" where
  "show_nat n = (if n < 10 then [digit_char n] else show_nat (n div 10) @ [digit_char (n mod 10)])"

declare show_nat.simps [simp del]

definition show_int :: "int \<Rightarrow> string" where
  "show_int i = (if i < 0 then ''-'' @ show_nat (nat (- i)) else show_nat (nat i))"

text \<open>\<open>'%0<w>d'\<close>: left padding with zeros to width \<open>w\<close>.\<close>

definition zero_pad :: "nat \<Rightarrow> string \<Rightarrow> string" where
  "zero_pad w s = replicate (w - length s) CHR ''0'' @ s"

text \<open>\<open>f"{x:.<n>f}"\<close>: fixed-point formatting with \<open>n\<close> decimals.\<close>

definition fmt_fixed :: "nat \<Rightarrow> real \<Rightarrow> string" where
  "fmt_fixed n x =
     (let k = nat (round_half_even (\<bar>x\<bar> * 10 ^ n));
          whole = show_nat (k div 10 ^ n);
          digits = zero_pad n (show_nat (k mod 10 ^ n))
      in (if x < 0 then ''-'' else '''') @ whole @ (if n = 0 then '''' else ''.'' @ digits))"

text \<open>
  \<open>str(x)\<close> of a float, as far as the configured thresholds need it: the integer part, a
  point, and the decimal digits up to the last non-zero one (at least one digit, at most
  sixteen).
\<close>

fun frac_digits :: "nat \<Rightarrow> real \<Rightarrow> string" where
  "frac_digits 0 r = []"
| "frac_digits (Suc k) r =
     (let d = nat \<lfloor>r * 10\<rfloor>; r' = frac (r * 10)
      in digit_char d # (if r' = 0 then [] else frac_digits k r'))"

definition float_repr :: "real \<Rightarrow> string" where
  "float_repr x =
     (if x < 0 then ''-'' else '''') @ show_nat (nat \<lfloor>\<bar>x\<bar>\<rfloor>) @ ''.'' @ frac_digits 16 (frac \<bar>x\<bar>)"

text \<open>Truthiness of an \<open>Optional[str]\<close>: neither \<open>None\<close> nor empty.\<close>

fun truthy :: "string option \<Rightarrow> bool" where
  "truthy None = False"
| "truthy (Some s) = (s \<noteq> [])"

text \<open>\<open>func.sum\<close> over the selected rows is \<open>NULL\<close> when no row is selected; \<open>v or 0\<close>.\<close>

definition sql_sum :: "int list \<Rightarrow> int option" where
  "sql_sum xs = (if xs = [] then None else Some (sum_list xs))"

fun or_zero :: "int option \<Rightarrow> int" where
  "or_zero None = 0"
| "or_zero (Some v) = v"

datatype error =
    ValueError string
  | KeyError string
  | IntegrityError
  | ValidationError
  | OverflowError
  | DatabaseError
  | AttributeError

text \<open>
  A \<open>datetime\<close> lies between the first instant of year 1 and the last microsecond of
  year 9999, and a \<open>timedelta\<close> has less than 1,000,000,000 days in either direction.
  Constructing a \<open>timedelta\<close> outside its range raises \<open>OverflowError\<close>, and so does
  adding one to a \<open>datetime\<close> when the sum leaves the range of \<open>datetime\<close>.
  \<open>timedelta\<close> takes the length in seconds; \<open>datetime_minus now s\<close> is
  \<open>now - timedelta(seconds=s)\<close> and \<open>datetime_plus now s\<close> is \<open>now + timedelta(seconds=s)\<close>.
\<close>

definition datetime_min :: datetime where
  "datetime_min = - 62135596800"

definition datetime_max :: datetime where
  "datetime_max = 253402300800 - 1 / 1000000"

definition timedelta :: "real \<Rightarrow> error + real" where
  "timedelta seconds =
     (if - 999999999 * 86400 \<le> seconds \<and> seconds < 1000000000 * 86400 then Inr seconds
      else Inl OverflowError)"

definition datetime_add :: "datetime \<Rightarrow> real \<Rightarrow> error + datetime" where
  "datetime_add t delta =
     (if datetime_min \<le> t + delta \<and> t + delta \<le> datetime_max then Inr (t + delta)
      else Inl OverflowError)"

definition datetime_minus :: "datetime \<Rightarrow> real \<Rightarrow> error + datetime" where
  "datetime_minus t seconds =
     (case timedelta seconds of Inl e \<Rightarrow> Inl e | Inr delta \<Rightarrow> datetime_add t (- delta))"

definition datetime_plus :: "datetime \<Rightarrow> real \<Rightarrow> error + datetime" where
  "datetime_plus t seconds =
     (case timedelta seconds of Inl e \<Rightarrow> Inl e | Inr delta \<Rightarrow> datetime_add t delta)"

text \<open>
  The database adds an integer column up in a signed 64-bit accumulator and fails the
  query with an integer overflow as soon as the running sum leaves that range.
\<close>

fun sum_in_range :: "int \<Rightarrow> int list \<Rightarrow> bool" where
  "sum_in_range acc [] = True"
| "sum_in_range acc (x # xs) =
     (- (2 ^ 63) \<le> acc + x \<and> acc + x < 2 ^ 63 \<and> sum_in_range (acc + x) xs)"

section \<open>Enumerations and settings (schemas.py, config.py)\<close>

datatype RiskLevel = SAFE | OBSERVE | DANGER | FREEZE

datatype AlertSeverity = INFO | WARNING | CRITICAL | EMERGENCY

datatype AlertChannel = EMAIL | SLACK | UI | PAGERDUTY

fun risk_value :: "RiskLevel \<Rightarrow> string" where
  "risk_value SAFE = ''safe''"
| "risk_value OBSERVE = ''observe''"
| "risk_value DANGER = ''danger''"
| "risk_value FREEZE = ''freeze''"

record Settings =
  BURN_RATE_OBSERVE_THRESHOLD :: real
  BURN_RATE_DANGER_THRESHOLD :: real
  BURN_RATE_FREEZE_THRESHOLD :: real
  ERROR_BUDGET_OBSERVE_THRESHOLD :: real
  ERROR_BUDGET_DANGER_THRESHOLD :: real
  ERROR_BUDGET_FREEZE_THRESHOLD :: real
  RELEASE_GATE_BURN_RATE_THRESHOLD :: real
  RELEASE_GATE_BUDGET_THRESHOLD :: real
  ALERT_COOLDOWN_MINUTES :: int

text \<open>The values of class \<open>Settings\<close> when the environment overrides nothing.\<close>

definition default_settings :: Settings where
  "default_settings =
     \<lparr> BURN_RATE_OBSERVE_THRESHOLD = 1.5,
       BURN_RATE_DANGER_THRESHOLD = 2.0,
       BURN_RATE_FREEZE_THRESHOLD = 3.0,
       ERROR_BUDGET_OBSERVE_THRESHOLD = 70.0,
       ERROR_BUDGET_DANGER_THRESHOLD = 85.0,
       ERROR_BUDGET_FREEZE_THRESHOLD = 95.0,
       RELEASE_GATE_BURN_RATE_THRESHOLD = 2.0,
       RELEASE_GATE_BUDGET_THRESHOLD = 90.0,
       ALERT_COOLDOWN_MINUTES = 15 \<rparr>"

text \<open>\<open>RISK_THRESHOLDS[level]["color"]\<close> and \<open>["action"]\<close>.\<close>

fun risk_color :: "RiskLevel \<Rightarrow> string" where
  "risk_color SAFE = ''#22c55e''"
| "risk_color OBSERVE = ''#eab308''"
| "risk_color DANGER = ''#f97316''"
| "risk_color FREEZE = ''#ef4444''"

fun risk_action :: "RiskLevel \<Rightarrow> string" where
  "risk_action SAFE = ''Normal operations''"
| "risk_action OBSERVE = ''Increased monitoring''"
| "risk_action DANGER = ''Limit non-critical changes''"
| "risk_action FREEZE = ''Block all deployments''"

section \<open>Tables (models/database.py)\<close>

text \<open>
  Each table is the list of its rows in insertion order; a row carries the columns that
  the services below read or write. \<open>query(...).first()\<close> is the first matching row.
\<close>

record Service =
  svc_id :: int
  svc_name :: string
  svc_is_active :: bool

record Metric =
  m_service_id :: int
  m_timestamp :: datetime
  m_total_requests :: int
  m_error_count :: int
  m_latency_p50 :: "real option"
  m_latency_p95 :: "real option"
  m_latency_p99 :: "real option"
  m_success_rate :: "real option"

record SLOTarget =
  slo_service_id :: int
  slo_name :: string
  slo_target_value :: real
  slo_window_days :: int
  slo_critical_burn_rate :: real
  slo_is_active :: bool

record BurnHistory =
  bh_service_id :: int
  bh_timestamp :: datetime
  bh_window_minutes :: int
  bh_burn_rate :: real
  bh_error_budget_consumed :: real
  bh_error_budget_remaining :: real
  bh_time_to_exhaustion_hours :: "real option"
  bh_risk_level :: RiskLevel

record Deployment =
  dep_service_id :: int
  dep_deployment_id :: string
  dep_version :: "string option"
  dep_requested_at :: datetime
  dep_requested_by :: "string option"
  dep_allowed :: bool
  dep_blocked_reason :: "string option"
  dep_risk_level_at_request :: "RiskLevel option"
  dep_burn_rate_at_request :: "real option"
  dep_status :: string

record Alert =
  al_service_id :: int
  al_timestamp :: datetime
  al_severity :: AlertSeverity
  al_channel :: AlertChannel
  al_title :: string
  al_message :: string
  al_alert_metadata :: "(string \<times> string) list option"
  al_sent :: bool
  al_sent_at :: "datetime option"

record database =
  services :: "Service list"
  metrics :: "Metric list"
  slo_targets :: "SLOTarget list"
  burn_history :: "BurnHistory list"
  deployments :: "Deployment list"
  alerts :: "Alert list"

section \<open>Burn-rate engine (services/burn\_rate\_service.py)\<close>

record BurnRateComputation =
  brc_service_id :: int
  brc_service_name :: string
  brc_timestamp :: datetime
  brc_window_minutes :: int
  brc_current_error_rate :: real
  brc_allowed_error_rate :: real
  brc_burn_rate :: real
  brc_error_budget_consumed :: real
  brc_error_budget_remaining :: real
  brc_risk_level :: RiskLevel
  brc_risk_color :: string
  brc_risk_action :: string

definition classify_risk :: "Settings \<Rightarrow> real \<Rightarrow> real \<Rightarrow> RiskLevel" where
  "classify_risk cfg burn_rate budget_consumed =
     (if burn_rate \<ge> BURN_RATE_FREEZE_THRESHOLD cfg \<or> budget_consumed \<ge> ERROR_BUDGET_FREEZE_THRESHOLD cfg
        then FREEZE
      else if burn_rate \<ge> BURN_RATE_DANGER_THRESHOLD cfg \<or> budget_consumed \<ge> ERROR_BUDGET_DANGER_THRESHOLD cfg
        then DANGER
      else if burn_rate \<ge> BURN_RATE_OBSERVE_THRESHOLD cfg \<or> budget_consumed \<ge> ERROR_BUDGET_OBSERVE_THRESHOLD cfg
        then OBSERVE
      else SAFE)"

text \<open>
  The query of lines 91 to 100: the metric rows of the window, their two sums, and
  whether the database can form both sums.
\<close>

definition window_rows :: "database \<Rightarrow> int \<Rightarrow> datetime \<Rightarrow> datetime \<Rightarrow> Metric list" where
  "window_rows db service_id window_start now =
     filter (\<lambda>m. m_service_id m = service_id \<and> m_timestamp m \<ge> window_start
                  \<and> m_timestamp m \<le> now) (metrics db)"

definition window_totals :: "database \<Rightarrow> int \<Rightarrow> datetime \<Rightarrow> datetime \<Rightarrow> int option \<times> int option" where
  "window_totals db service_id window_start now =
     (let rows = window_rows db service_id window_start now
      in (sql_sum (map m_total_requests rows), sql_sum (map m_error_count rows)))"

definition window_sums_in_range :: "database \<Rightarrow> int \<Rightarrow> datetime \<Rightarrow> datetime \<Rightarrow> bool" where
  "window_sums_in_range db service_id window_start now =
     (let rows = window_rows db service_id window_start now
      in sum_in_range 0 (map m_total_requests rows) \<and> sum_in_range 0 (map m_error_count rows))"

definition availability_target :: "database \<Rightarrow> int \<Rightarrow> SLOTarget option" where
  "availability_target db service_id =
     find (\<lambda>t. slo_service_id t = service_id \<and> slo_name t = ''availability'' \<and> slo_is_active t)
       (slo_targets db)"

definition compute_burn_rate ::
  "Settings \<Rightarrow> database \<Rightarrow> int \<Rightarrow> int \<Rightarrow> datetime \<Rightarrow> error + BurnRateComputation" where
  "compute_burn_rate cfg db service_id window_minutes now =
     (case find (\<lambda>s. svc_id s = service_id) (services db) of
        None \<Rightarrow> Inl (ValueError (''Service '' @ show_int service_id @ '' not found''))
      | Some service \<Rightarrow>
          let target_value =
                (case availability_target db service_id of
                   None \<Rightarrow> 99.9
                 | Some slo_target \<Rightarrow> slo_target_value slo_target);
              allowed_error_rate = (100 - target_value) / 100
          in (case datetime_minus now (of_int window_minutes * 60) of
                Inl e \<Rightarrow> Inl e
              | Inr window_start \<Rightarrow>
                  if \<not> window_sums_in_range db service_id window_start now
                    then Inl DatabaseError
                  else
                    let totals = window_totals db service_id window_start now;
                        total_requests = or_zero (fst totals);
                        error_count = or_zero (snd totals);
                        current_error_rate =
                          (if total_requests > 0
                             then of_int error_count / of_int total_requests else 0);
                        burn_rate =
                          (if allowed_error_rate > 0
                             then current_error_rate / allowed_error_rate else 0);
                        total_budget = of_int total_requests * allowed_error_rate;
                        consumed_percentage =
                          (if total_budget > 0
                             then min ((of_int error_count / total_budget) * 100) 100 else 0);
                        remaining_percentage =
                          (if total_budget > 0 then max (100 - consumed_percentage) 0 else 100);
                        risk_level = classify_risk cfg burn_rate consumed_percentage
                    in Inr \<lparr> brc_service_id = service_id,
                             brc_service_name = svc_name service,
                             brc_timestamp = now,
                             brc_window_minutes = window_minutes,
                             brc_current_error_rate = py_round current_error_rate 6,
                             brc_allowed_error_rate = py_round allowed_error_rate 6,
                             brc_burn_rate = py_round burn_rate 3,
                             brc_error_budget_consumed = py_round consumed_percentage 2,
                             brc_error_budget_remaining = py_round remaining_percentage 2,
                             brc_risk_level = risk_level,
                             brc_risk_color = risk_color risk_level,
                             brc_risk_action = risk_action risk_level \<rparr>))"

definition WINDOW_CONFIGS :: "(int \<times> string \<times> real) list" where
  "WINDOW_CONFIGS = [(5, ''5m'', 0.3), (60, ''1h'', 0.4), (1440, ''24h'', 0.3)]"

text \<open>The loop of \<open>compute_all_windows\<close>; the first failing computation ends it.\<close>

fun compute_windows ::
  "Settings \<Rightarrow> database \<Rightarrow> int \<Rightarrow> datetime \<Rightarrow> (int \<times> string \<times> real) list
     \<Rightarrow> error + BurnRateComputation list" where
  "compute_windows cfg db service_id now [] = Inr []"
| "compute_windows cfg db service_id now (window # rest) =
     (case compute_burn_rate cfg db service_id (fst window) now of
        Inl e \<Rightarrow> Inl e
      | Inr computation \<Rightarrow>
          (case compute_windows cfg db service_id now rest of
             Inl e \<Rightarrow> Inl e
           | Inr results \<Rightarrow> Inr (computation # results)))"

definition compute_all_windows ::
  "Settings \<Rightarrow> database \<Rightarrow> int \<Rightarrow> datetime \<Rightarrow> error + BurnRateComputation list" where
  "compute_all_windows cfg db service_id now = compute_windows cfg db service_id now WINDOW_CONFIGS"

fun risk_severity :: "RiskLevel \<Rightarrow> nat" where
  "risk_severity SAFE = 0"
| "risk_severity OBSERVE = 1"
| "risk_severity DANGER = 2"
| "risk_severity FREEZE = 3"

text \<open>One pass of the loop over \<open>zip(computations, WINDOW_CONFIGS)\<close>.\<close>

definition weighted_step ::
  "BurnRateComputation \<times> (int \<times> string \<times> real) \<Rightarrow> real \<times> real \<times> RiskLevel
     \<Rightarrow> real \<times> real \<times> RiskLevel" where
  "weighted_step pair acc =
     (case acc of (weighted_burn, total_weight, worst_risk) \<Rightarrow>
        let computation = fst pair; weight = snd (snd (snd pair))
        in (weighted_burn + brc_burn_rate computation * weight,
            total_weight + weight,
            if risk_severity (brc_risk_level computation) > risk_severity worst_risk
              then brc_risk_level computation else worst_risk))"

definition get_weighted_burn_rate ::
  "Settings \<Rightarrow> database \<Rightarrow> int \<Rightarrow> datetime \<Rightarrow> error + (real \<times> RiskLevel)" where
  "get_weighted_burn_rate cfg db service_id now =
     (case compute_all_windows cfg db service_id now of
        Inl e \<Rightarrow> Inl e
      | Inr computations \<Rightarrow>
          if computations = [] then Inr (0, SAFE)
          else
            (case fold weighted_step (zip computations WINDOW_CONFIGS) (0, 0, SAFE) of
               (weighted_burn, total_weight, worst_risk) \<Rightarrow>
                 let final_burn = (if total_weight > 0 then weighted_burn / total_weight else 0)
                 in Inr (py_round final_burn 3, worst_risk)))"

section \<open>SLO engine (services/slo\_service.py)\<close>

text \<open>
  The SLO engine is modelled by the values it computes: the start of its window is the
  plain difference and its sums are the plain sums, so what is proved of
  \<open>compute_single_slo\<close> holds of every result that the code returns.
\<close>

record SLOComputation =
  sc_service_id :: int
  sc_service_name :: string
  sc_slo_name :: string
  sc_target_value :: real
  sc_current_value :: real
  sc_is_meeting_slo :: bool
  sc_total_budget :: real
  sc_consumed_budget :: int
  sc_consumed_percentage :: real
  sc_remaining_percentage :: real
  sc_availability_5m :: "real option"
  sc_availability_1h :: "real option"
  sc_availability_24h :: "real option"
  sc_window_start :: datetime
  sc_window_end :: datetime
  sc_computed_at :: datetime

definition compute_window_availability :: "database \<Rightarrow> int \<Rightarrow> int \<Rightarrow> datetime \<Rightarrow> real option" where
  "compute_window_availability db service_id window_minutes now =
     (let start = now - of_int window_minutes * 60;
          totals = window_totals db service_id start now;
          total = or_zero (fst totals);
          errors = or_zero (snd totals)
      in if total = 0 then None
         else Some (py_round (of_int (total - errors) / of_int total * 100) 4))"

definition compute_single_slo :: "database \<Rightarrow> Service \<Rightarrow> SLOTarget \<Rightarrow> datetime \<Rightarrow> SLOComputation" where
  "compute_single_slo db service slo_target now =
     (let window_start = now - of_int (slo_window_days slo_target) * 86400;
          totals = window_totals db (svc_id service) window_start now;
          total_requests = or_zero (fst totals);
          error_count = or_zero (snd totals);
          current_value =
            (if total_requests > 0
               then of_int (total_requests - error_count) / of_int total_requests * 100
             else 100);
          slo_target_fraction = slo_target_value slo_target / 100;
          allowed_error_rate = 1 - slo_target_fraction;
          total_budget = (if total_requests > 0 then of_int total_requests * allowed_error_rate else 0);
          consumed_budget = error_count;
          consumed_percentage =
            (if total_budget > 0 then min ((of_int consumed_budget / total_budget) * 100) 100 else 0);
          remaining_percentage =
            (if total_budget > 0 then max (100 - consumed_percentage) 0 else 100)
      in \<lparr> sc_service_id = svc_id service,
           sc_service_name = svc_name service,
           sc_slo_name = slo_name slo_target,
           sc_target_value = slo_target_value slo_target,
           sc_current_value = py_round current_value 4,
           sc_is_meeting_slo = (current_value \<ge> slo_target_value slo_target),
           sc_total_budget = py_round total_budget 2,
           sc_consumed_budget = consumed_budget,
           sc_consumed_percentage = py_round consumed_percentage 2,
           sc_remaining_percentage = py_round remaining_percentage 2,
           sc_availability_5m = compute_window_availability db (svc_id service) 5 now,
           sc_availability_1h = compute_window_availability db (svc_id service) 60 now,
           sc_availability_24h = compute_window_availability db (svc_id service) 1440 now,
           sc_window_start = window_start,
           sc_window_end = now,
           sc_computed_at = now \<rparr>)"

section \<open>Forecast module (services/forecast\_service.py)\<close>

record Trend =
  slope :: real
  direction :: string
  confidence :: string
  r_squared :: real
  data_points :: nat

text \<open>
  \<open>_calculate_trend\<close>. When every point has the same timestamp the quotient of the
  regression is \<open>0.0 / 0.0\<close>, which numpy evaluates to \<open>nan\<close> without raising; every
  comparison the code then makes with it is false, as it is for the value \<open>0\<close> that
  the model puts in its place. The cutoff of the history, six hours before the clock
  reading, is the plain difference.
\<close>

definition trend_history :: "database \<Rightarrow> int \<Rightarrow> datetime \<Rightarrow> BurnHistory list" where
  "trend_history db service_id now =
     (let cutoff = now - 6 * 3600
      in sort_key bh_timestamp
           (filter (\<lambda>h. bh_service_id h = service_id \<and> bh_window_minutes h = 60
                         \<and> bh_timestamp h \<ge> cutoff) (burn_history db)))"

text \<open>The regression over a history of at least three points.\<close>

definition regression :: "BurnHistory list \<Rightarrow> Trend" where
  "regression history =
     (let base_time = bh_timestamp (hd history);
          x = map (\<lambda>h. (bh_timestamp h - base_time) / 3600) history;
          y = map bh_burn_rate history;
          n = length x;
          numerator = of_nat n * sum_list (map2 (*) x y) - sum_list x * sum_list y;
          denominator = of_nat n * sum_list (map (\<lambda>v. v ^ 2) x) - (sum_list x) ^ 2;
          m = (if denominator = 0 then 0 else numerator / denominator);
          y_mean = sum_list y / of_nat n;
          x_mean = sum_list x / of_nat n;
          y_pred = map (\<lambda>v. m * v + (y_mean - m * x_mean)) x;
          ss_res = sum_list (map2 (\<lambda>a b. (a - b) ^ 2) y y_pred);
          ss_tot = sum_list (map (\<lambda>a. (a - y_mean) ^ 2) y);
          r2 = (if ss_tot > 0 then 1 - ss_res / ss_tot else 0)
      in \<lparr> slope = m,
           direction = (if m > 0.1 then ''increasing''
                        else if m < - 0.1 then ''decreasing'' else ''stable''),
           confidence = (if r2 > 0.7 \<and> n \<ge> 5 then ''high''
                         else if r2 > 0.4 \<and> n \<ge> 3 then ''medium'' else ''low''),
           r_squared = r2,
           data_points = n \<rparr>)"

definition calculate_trend :: "database \<Rightarrow> int \<Rightarrow> datetime \<Rightarrow> Trend option" where
  "calculate_trend db service_id now =
     (let history = trend_history db service_id now
      in if length history < 3 then None else Some (regression history))"

text \<open>
  Lines 72 to 88 of \<open>forecast_exhaustion\<close>: the burn rate the forecast uses, the trend
  direction, the trend slope and the confidence.
\<close>

definition trend_adjustment :: "real \<Rightarrow> bool \<Rightarrow> Trend option \<Rightarrow> real \<times> string \<times> real \<times> string" where
  "trend_adjustment current_burn_rate use_historical_trend trend_data =
     (if use_historical_trend then
        (case trend_data of
           None \<Rightarrow> (current_burn_rate, ''stable'', 0, ''medium'')
         | Some td \<Rightarrow>
             (if slope td > 0 then current_burn_rate + slope td else current_burn_rate,
              direction td, slope td, confidence td))
      else (current_burn_rate, ''stable'', 0, ''medium''))"

text \<open>
  Lines 90 to 110 of \<open>forecast_exhaustion\<close>: \<open>time_to_exhaustion\<close> (hours) and
  \<open>exhaustion_time\<close>. Line 107 adds \<open>timedelta(hours=time_to_exhaustion)\<close> to the clock
  reading and raises \<open>OverflowError\<close> when the projected time is not a \<open>datetime\<close>.
\<close>

definition exhaustion ::
  "real \<Rightarrow> real \<Rightarrow> real \<Rightarrow> datetime \<Rightarrow> error + (real option \<times> datetime option)" where
  "exhaustion burn_rate_for_forecast remaining_budget window_hours now =
     (if burn_rate_for_forecast > 0 \<and> remaining_budget > 0 then
        (let time_to_exhaustion =
               py_round ((remaining_budget / 100) * window_hours / burn_rate_for_forecast) 2
         in if time_to_exhaustion > 0 then
              (case datetime_plus now (time_to_exhaustion * 3600) of
                 Inl e \<Rightarrow> Inl e
               | Inr exhaustion_time \<Rightarrow> Inr (Some time_to_exhaustion, Some exhaustion_time))
            else Inr (Some time_to_exhaustion, None))
      else if remaining_budget \<le> 0 then Inr (Some 0, Some now)
      else Inr (None, None))"

text \<open>\<open>int(x)\<close> of a float truncates towards zero.\<close>

definition py_int :: "real \<Rightarrow> int" where
  "py_int x = (if x < 0 then \<lceil>x\<rceil> else \<lfloor>x\<rfloor>)"

text \<open>The multiplication sign of the messages, in UTF-8.\<close>

definition times_sign :: string where
  "times_sign = [char_of (0xC3 :: nat), char_of (0x97 :: nat)]"

definition generate_forecast_message ::
  "string \<Rightarrow> real \<Rightarrow> real \<Rightarrow> real option \<Rightarrow> string \<Rightarrow> string" where
  "generate_forecast_message service_name burn_rate remaining hours_to_exhaustion trend =
     (if remaining \<le> 0
        then service_name @ '' has exhausted its error budget. Immediate action required.''
      else
        (case hours_to_exhaustion of
           None \<Rightarrow> service_name @ '' error budget status is healthy with '' @ fmt_fixed 1 remaining
                     @ ''% remaining.''
         | Some h \<Rightarrow>
             let time_str =
                   (if h < 1 then show_int (py_int (h * 60)) @ '' minutes''
                    else if h < 24 then fmt_fixed 1 h @ '' hours''
                    else if h < 72 then fmt_fixed 1 (h / 24) @ '' days''
                    else show_int (py_int (h / 24)) @ '' days'');
                 severity =
                   (if burn_rate \<ge> 3.0 then ''critically fast''
                    else if burn_rate \<ge> 2.0 then fmt_fixed 1 burn_rate @ times_sign @ '' faster than allowed''
                    else if burn_rate \<ge> 1.5 then fmt_fixed 1 burn_rate @ times_sign @ '' normal rate''
                    else if burn_rate \<ge> 1.0 then ''at the allowed rate''
                    else ''below normal'');
                 urgency =
                   (if burn_rate \<ge> 3.0 then ''Immediate intervention required.''
                    else if burn_rate \<ge> 2.0 then ''Action recommended within the hour.''
                    else if burn_rate \<ge> 1.5 then ''Monitor closely.''
                    else if burn_rate \<ge> 1.0 then ''Consider investigation.''
                    else ''Budget is healthy.'');
                 trend_msg =
                   (if trend = ''increasing'' then '' Burn rate is trending upward.''
                    else if trend = ''decreasing'' then '' Burn rate is trending downward.''
                    else [])
             in service_name @ '' is burning error budget '' @ severity @ ''. ''
                  @ ''Budget exhaustion projected in ~'' @ time_str @ ''.'' @ trend_msg @ '' ''
                  @ urgency))"

record ForecastResponse =
  fr_service_id :: int
  fr_service_name :: string
  fr_computed_at :: datetime
  fr_current_burn_rate :: real
  fr_error_budget_remaining :: real
  fr_time_to_exhaustion_hours :: "real option"
  fr_projected_exhaustion_time :: "datetime option"
  fr_confidence_level :: string
  fr_burn_rate_trend :: string
  fr_trend_slope :: real
  fr_forecast_message :: string

definition forecast_exhaustion ::
  "Settings \<Rightarrow> database \<Rightarrow> int \<Rightarrow> bool \<Rightarrow> datetime \<Rightarrow> error + ForecastResponse" where
  "forecast_exhaustion cfg db service_id use_historical_trend now =
     (case find (\<lambda>s. svc_id s = service_id) (services db) of
        None \<Rightarrow> Inl (ValueError (''Service '' @ show_int service_id @ '' not found''))
      | Some service \<Rightarrow>
          (case compute_burn_rate cfg db service_id 60 now of
             Inl e \<Rightarrow> Inl e
           | Inr current_burn \<Rightarrow>
               let window_days =
                     (case availability_target db service_id of
                        None \<Rightarrow> 30
                      | Some slo_target \<Rightarrow> slo_window_days slo_target);
                   window_hours = of_int (window_days * 24);
                   trend_data =
                     (if use_historical_trend then calculate_trend db service_id now else None)
               in (case trend_adjustment (brc_burn_rate current_burn) use_historical_trend trend_data of
                     (burn_rate_for_forecast, trend_direction, trend_slope, confidence_level) \<Rightarrow>
                       let remaining_budget = brc_error_budget_remaining current_burn
                       in (case exhaustion burn_rate_for_forecast remaining_budget window_hours now of
                             Inl e \<Rightarrow> Inl e
                           | Inr (time_to_exhaustion, exhaustion_time) \<Rightarrow>
                               Inr \<lparr> fr_service_id = service_id,
                                     fr_service_name = svc_name service,
                                     fr_computed_at = now,
                                     fr_current_burn_rate = brc_burn_rate current_burn,
                                     fr_error_budget_remaining = remaining_budget,
                                     fr_time_to_exhaustion_hours = time_to_exhaustion,
                                     fr_projected_exhaustion_time = exhaustion_time,
                                     fr_confidence_level = confidence_level,
                                     fr_burn_rate_trend = trend_direction,
                                     fr_trend_slope = py_round trend_slope 4,
                                     fr_forecast_message =
                                       generate_forecast_message (svc_name service)
                                         (brc_burn_rate current_burn) remaining_budget
                                         time_to_exhaustion trend_direction \<rparr>))))"

section \<open>Release gate (services/release\_gate\_service.py)\<close>

record ReleaseCheckRequest =
  req_service_name :: string
  req_deployment_id :: string
  req_version :: "string option"
  req_requested_by :: "string option"
  req_override :: bool
  req_override_reason :: "string option"

record ReleaseCheckResponse =
  resp_allowed :: bool
  resp_reason :: string
  resp_service_name :: string
  resp_deployment_id :: string
  resp_current_risk_level :: RiskLevel
  resp_current_burn_rate :: real
  resp_error_budget_remaining :: real
  resp_time_to_exhaustion_hours :: "real option"
  resp_recommendations :: "string list"
  resp_checked_at :: datetime
  resp_checked_by :: string

text \<open>The text of an \<open>Optional[str]\<close> that has passed a truthiness test.\<close>

fun opt_text :: "string option \<Rightarrow> string" where
  "opt_text None = ''None''"
| "opt_text (Some s) = s"

definition evaluate_gate ::
  "Settings \<Rightarrow> real \<Rightarrow> RiskLevel \<Rightarrow> real \<Rightarrow> real option \<Rightarrow> bool \<Rightarrow> string option
     \<Rightarrow> bool \<times> string \<times> string list" where
  "evaluate_gate cfg burn_rate risk_level budget_remaining time_to_exhaustion override override_reason =
     (if risk_level = FREEZE then
        (if override \<and> truthy override_reason then
           (True,
            ''OVERRIDE: Deployment allowed despite FREEZE state. Reason: '' @ opt_text override_reason,
            [''Deployment approved via override - monitor closely''])
         else
           (False,
            ''Deployment blocked: System is in FREEZE state due to critical reliability issues'',
            [''Investigate and resolve active incidents before deploying'',
             ''Error budget is critically low or exhausted'',
             ''Consider rolling back recent changes'']))
      else if risk_level = DANGER then
        (let recommendations = [''System is in DANGER state - consider waiting''] in
         if override \<and> truthy override_reason then
           (True,
            ''OVERRIDE: Deployment allowed despite DANGER state. Reason: '' @ opt_text override_reason,
            recommendations @ [''Monitor deployment closely and be ready to rollback''])
         else
           (False,
            ''Deployment blocked: System is in DANGER state with elevated error rates'',
            recommendations @
              [''Error budget is running low'',
               ''Wait for system to stabilize or provide override with justification'']))
      else if burn_rate > RELEASE_GATE_BURN_RATE_THRESHOLD cfg then
        (False,
         ''Deployment blocked: Burn rate ('' @ fmt_fixed 2 burn_rate @ ''x) exceeds threshold (''
           @ float_repr (RELEASE_GATE_BURN_RATE_THRESHOLD cfg) @ ''x)'',
         [''Current error rate is too high for safe deployment'',
          ''Investigate recent changes that may have caused elevated errors''])
      else
        (let budget_consumed = 100 - budget_remaining in
         if budget_consumed > RELEASE_GATE_BUDGET_THRESHOLD cfg then
           (False,
            ''Deployment blocked: Error budget '' @ fmt_fixed 1 budget_consumed
              @ ''% consumed exceeds threshold ('' @ float_repr (RELEASE_GATE_BUDGET_THRESHOLD cfg)
              @ ''%)'',
            [''Error budget is nearly exhausted'',
             ''Prioritize reliability improvements before new deployments''])
         else
           (let recommendations =
                  (case time_to_exhaustion of
                     None \<Rightarrow> []
                   | Some h \<Rightarrow>
                       if h < 4
                         then [''Warning: Error budget will be exhausted in ~'' @ fmt_fixed 1 h @ '' hours'']
                       else [])
            in if risk_level = OBSERVE then
                 (True,
                  ''Deployment allowed with caution: System reliability is being observed'',
                  recommendations @
                    [''System is in OBSERVE state - increased monitoring recommended'',
                     ''Consider smaller deployment batches''])
               else
                 (True,
                  ''Deployment allowed: System reliability is healthy'',
                  if recommendations \<noteq> [] then recommendations
                  else [''System is operating normally'']))))"

subsection \<open>\<open>str(uuid.uuid4())\<close> of the standard library, from sixteen random bytes\<close>

unbundle bit_operations_syntax

definition uuid4 :: "128 word \<Rightarrow> 128 word" where
  "uuid4 random_bytes =
     (let i1 = random_bytes AND NOT (push_bit 48 0xc000);
          i2 = i1 OR push_bit 48 0x8000;
          i3 = i2 AND NOT (push_bit 64 0xf000)
      in i3 OR push_bit 76 4)"

definition hex_char :: "nat \<Rightarrow> char" where
  "hex_char d = (if d < 10 then char_of (48 + d) else char_of (87 + d))"

fun hex_digits :: "nat \<Rightarrow> nat \<Rightarrow> string" where
  "hex_digits 0 v = []"
| "hex_digits (Suc k) v = hex_digits k (v div 16) @ [hex_char (v mod 16)]"

definition uuid_str :: "128 word \<Rightarrow> string" where
  "uuid_str u =
     (let hex = hex_digits 32 (unat u)
      in take 8 hex @ ''-'' @ take 4 (drop 8 hex) @ ''-'' @ take 4 (drop 12 hex) @ ''-''
           @ take 4 (drop 16 hex) @ ''-'' @ drop 20 hex)"

text \<open>
  \<open>_record_deployment\<close>. The column \<open>deployment_id\<close> is declared unique: the commit of
  a row whose id is already in the table raises and leaves the table as it was.
\<close>

definition record_deployment ::
  "database \<Rightarrow> int \<Rightarrow> string \<Rightarrow> string option \<Rightarrow> string option \<Rightarrow> bool \<Rightarrow> string \<Rightarrow> RiskLevel
     \<Rightarrow> real \<Rightarrow> datetime \<Rightarrow> 128 word \<Rightarrow> error + database" where
  "record_deployment db service_id deployment_id version requested_by allowed reason risk_level
       burn_rate now random_bytes =
     (let deployment_id' =
            (if deployment_id = [] then uuid_str (uuid4 random_bytes) else deployment_id);
          deployment =
            \<lparr> dep_service_id = service_id,
              dep_deployment_id = deployment_id',
              dep_version = version,
              dep_requested_at = now,
              dep_requested_by = requested_by,
              dep_allowed = allowed,
              dep_blocked_reason = (if \<not> allowed then Some reason else None),
              dep_risk_level_at_request = Some risk_level,
              dep_burn_rate_at_request = Some burn_rate,
              dep_status = (if allowed then ''approved'' else ''rejected'') \<rparr>
      in if deployment_id' \<in> set (map dep_deployment_id (deployments db))
           then Inl IntegrityError
         else Inr (db\<lparr>deployments := deployments db @ [deployment]\<rparr>))"

definition check_release ::
  "Settings \<Rightarrow> database \<Rightarrow> ReleaseCheckRequest \<Rightarrow> datetime \<Rightarrow> 128 word
     \<Rightarrow> error + (ReleaseCheckResponse \<times> database)" where
  "check_release cfg db request now random_bytes =
     (case find (\<lambda>s. svc_name s = req_service_name request) (services db) of
        None \<Rightarrow>
          Inr (\<lparr> resp_allowed = False,
                 resp_reason = ''Service '' @ [CHR 0x27] @ req_service_name request @ [CHR 0x27]
                                 @ '' not found'',
                 resp_service_name = req_service_name request,
                 resp_deployment_id = req_deployment_id request,
                 resp_current_risk_level = FREEZE,
                 resp_current_burn_rate = 0,
                 resp_error_budget_remaining = 0,
                 resp_time_to_exhaustion_hours = None,
                 resp_recommendations = [''Register the service before deploying''],
                 resp_checked_at = now,
                 resp_checked_by = ''system'' \<rparr>, db)
      | Some service \<Rightarrow>
          (case compute_burn_rate cfg db (svc_id service) 60 now of
             Inl e \<Rightarrow> Inl e
           | Inr burn_computation \<Rightarrow>
               (case get_weighted_burn_rate cfg db (svc_id service) now of
                  Inl e \<Rightarrow> Inl e
                | Inr (weighted_burn, worst_risk) \<Rightarrow>
                    (case forecast_exhaustion cfg db (svc_id service) True now of
                       Inl e \<Rightarrow> Inl e
                     | Inr forecast \<Rightarrow>
                         (case evaluate_gate cfg weighted_burn worst_risk
                                 (brc_error_budget_remaining burn_computation)
                                 (fr_time_to_exhaustion_hours forecast)
                                 (req_override request) (req_override_reason request) of
                            (allowed, reason, recommendations) \<Rightarrow>
                              (case record_deployment db (svc_id service) (req_deployment_id request)
                                      (req_version request) (req_requested_by request) allowed reason
                                      worst_risk weighted_burn now random_bytes of
                                 Inl e \<Rightarrow> Inl e
                               | Inr db' \<Rightarrow>
                                   Inr (\<lparr> resp_allowed = allowed,
                                          resp_reason = reason,
                                          resp_service_name = svc_name service,
                                          resp_deployment_id = req_deployment_id request,
                                          resp_current_risk_level = worst_risk,
                                          resp_current_burn_rate = weighted_burn,
                                          resp_error_budget_remaining =
                                            brc_error_budget_remaining burn_computation,
                                          resp_time_to_exhaustion_hours =
                                            fr_time_to_exhaustion_hours forecast,
                                          resp_recommendations = recommendations,
                                          resp_checked_at = now,
                                          resp_checked_by =
                                            (if truthy (req_requested_by request)
                                               then opt_text (req_requested_by request)
                                             else ''system'') \<rparr>, db')))))))"

section \<open>Alert manager (services/alert\_service.py)\<close>

record AlertTemplate =
  tpl_title :: string
  tpl_message :: string
  tpl_severity :: AlertSeverity

definition ALERT_TEMPLATES :: "(string \<times> AlertTemplate) list" where
  "ALERT_TEMPLATES =
     [(''budget_exhausted'',
       \<lparr> tpl_title = ''[CRITICAL] Error Budget Exhausted: {service}'',
         tpl_message = ''Error budget for {service} has been completely exhausted. Deployment freeze recommended.'',
         tpl_severity = EMERGENCY \<rparr>),
      (''budget_critical'',
       \<lparr> tpl_title = ''[WARNING] Error Budget Critical: {service}'',
         tpl_message = ''Error budget for {service} is critically low ({remaining}% remaining). Budget will be exhausted in ~{time}.'',
         tpl_severity = CRITICAL \<rparr>),
      (''burn_rate_high'',
       \<lparr> tpl_title = ''[ALERT] High Burn Rate: {service}'',
         tpl_message = ''{service} is burning error budget at {rate}''
            @ map char_of [0xC3, 0x83, 0xE2, 0x80, 0x94 :: nat]
            @ '' the allowed rate. Current risk level: {risk}.'',
         tpl_severity = WARNING \<rparr>),
      (''risk_escalation'',
       \<lparr> tpl_title = ''[NOTICE] Risk Level Changed: {service}'',
         tpl_message = ''{service} risk level has escalated from {from_risk} to {to_risk}.'',
         tpl_severity = WARNING \<rparr>),
      (''deployment_blocked'',
       \<lparr> tpl_title = ''[INFO] Deployment Blocked: {service}'',
         tpl_message = ''Deployment {deployment_id} was blocked due to {reason}.'',
         tpl_severity = INFO \<rparr>),
      (''recovery'',
       \<lparr> tpl_title = ''[RESOLVED] Service Recovered: {service}'',
         tpl_message = ''{service} has recovered. Risk level is now {risk}.'',
         tpl_severity = INFO \<rparr>)]"

text \<open>
  \<open>template.format(**template_vars)\<close> for templates whose replacement fields are plain
  names in braces: a field that names no variable raises \<open>KeyError\<close>. The second
  argument is the field name read so far, if the scan is inside a field.
\<close>

fun format_fields :: "(string \<times> string) list \<Rightarrow> string option \<Rightarrow> string \<Rightarrow> error + string" where
  "format_fields vars None [] = Inr []"
| "format_fields vars (Some field) [] = Inl (ValueError ''expected } before end of string'')"
| "format_fields vars None (c # cs) =
     (if c = CHR ''{'' then format_fields vars (Some []) cs
      else (case format_fields vars None cs of Inl e \<Rightarrow> Inl e | Inr out \<Rightarrow> Inr (c # out)))"
| "format_fields vars (Some field) (c # cs) =
     (if c = CHR ''}'' then
        (case map_of vars field of
           None \<Rightarrow> Inl (KeyError field)
         | Some v \<Rightarrow>
             (case format_fields vars None cs of Inl e \<Rightarrow> Inl e | Inr out \<Rightarrow> Inr (v @ out)))
      else format_fields vars (Some (field @ [c])) cs)"

definition format_template :: "string \<Rightarrow> (string \<times> string) list \<Rightarrow> error + string" where
  "format_template template vars = format_fields vars None template"

text \<open>
  \<open>_is_in_cooldown\<close>. The JSON column of the \<open>Alert\<close> model is \<open>alert_metadata\<close>
  (models/database.py, line 192); \<open>Alert.metadata\<close> is the \<open>MetaData\<close> registry that
  every class of \<open>declarative_base()\<close> carries, and a \<open>MetaData\<close> object has no
  attribute \<open>contains\<close>. Building the filter of lines 135 to 141 therefore raises
  \<open>AttributeError\<close> at line 139, after \<open>cooldown_start\<close> has been computed and before
  any row is read; the function has no path that returns.
\<close>

definition is_in_cooldown :: "Settings \<Rightarrow> database \<Rightarrow> int \<Rightarrow> string \<Rightarrow> datetime \<Rightarrow> error + bool" where
  "is_in_cooldown cfg db service_id alert_type now =
     (case datetime_minus now (of_int (ALERT_COOLDOWN_MINUTES cfg) * 60) of
        Inl e \<Rightarrow> Inl e
      | Inr cooldown_start \<Rightarrow> Inl AttributeError)"

text \<open>\<open>_send_notification\<close> marks the alert as sent; the transport is simulated by a print.\<close>

definition send_notification :: "Alert \<Rightarrow> datetime \<Rightarrow> Alert" where
  "send_notification alert now = alert\<lparr>al_sent := True, al_sent_at := Some now\<rparr>"

text \<open>
  \<open>create_alert\<close>. The keyword \<open>metadata\<close> of the \<open>Alert\<close> constructor (line 119) names
  the registry attribute, not a column, so a row built there would have no
  \<open>alert_metadata\<close>.
\<close>

definition create_alert ::
  "Settings \<Rightarrow> database \<Rightarrow> int \<Rightarrow> string \<Rightarrow> AlertChannel \<Rightarrow> (string \<times> string) list
     \<Rightarrow> (string \<times> string) list option \<Rightarrow> datetime \<Rightarrow> error + (Alert option \<times> database)" where
  "create_alert cfg db service_id alert_type channel template_vars metadata now =
     (case map_of ALERT_TEMPLATES alert_type of
        None \<Rightarrow> Inl (ValueError (''Unknown alert type: '' @ alert_type))
      | Some template \<Rightarrow>
          (case is_in_cooldown cfg db service_id alert_type now of
             Inl e \<Rightarrow> Inl e
           | Inr in_cooldown \<Rightarrow>
               if in_cooldown then Inr (None, db)
               else
                 (case format_template (tpl_title template) template_vars of
                    Inl e \<Rightarrow> Inl e
                  | Inr title \<Rightarrow>
                      (case format_template (tpl_message template) template_vars of
                         Inl e \<Rightarrow> Inl e
                       | Inr message \<Rightarrow>
                           let alert =
                                 \<lparr> al_service_id = service_id,
                                   al_timestamp = now,
                                   al_severity = tpl_severity template,
                                   al_channel = channel,
                                   al_title = title,
                                   al_message = message,
                                   al_alert_metadata = None,
                                   al_sent = False,
                                   al_sent_at = None \<rparr>;
                               alert' = send_notification alert now
                           in Inr (Some alert', db\<lparr>alerts := alerts db @ [alert']\<rparr>)))))"

definition format_time :: "real option \<Rightarrow> string" where
  "format_time hours =
     (case hours of
        None \<Rightarrow> ''unknown''
      | Some h \<Rightarrow>
          if h < 1 then show_int (py_int (h * 60)) @ '' minutes''
          else if h < 24 then fmt_fixed 1 h @ '' hours''
          else fmt_fixed 1 (h / 24) @ '' days'')"

definition str_upper :: "string \<Rightarrow> string" where
  "str_upper s =
     map (\<lambda>c. let n = (of_char c :: nat) in if 97 \<le> n \<and> n \<le> 122 then char_of (n - 32) else c) s"

fun alert_list :: "Alert option \<Rightarrow> Alert list" where
  "alert_list None = []"
| "alert_list (Some a) = [a]"

text \<open>
  The first \<open>if\<close>/\<open>elif\<close> of \<open>evaluate_and_alert\<close>: the budget alert, if any.
\<close>

definition budget_alert ::
  "Settings \<Rightarrow> database \<Rightarrow> Service \<Rightarrow> BurnRateComputation \<Rightarrow> datetime
     \<Rightarrow> error + (Alert option \<times> database)" where
  "budget_alert cfg db service burn now =
     (if brc_error_budget_remaining burn \<le> 0 then
        create_alert cfg db (svc_id service) ''budget_exhausted'' SLACK
          [(''service'', svc_name service)] (Some [(''alert_type'', ''budget_exhausted'')]) now
      else if brc_error_budget_remaining burn < 15 then
        (case forecast_exhaustion cfg db (svc_id service) True now of
           Inl e \<Rightarrow> Inl e
         | Inr forecast \<Rightarrow>
             create_alert cfg db (svc_id service) ''budget_critical'' SLACK
               [(''service'', svc_name service),
                (''remaining'', fmt_fixed 1 (brc_error_budget_remaining burn)),
                (''time'', format_time (fr_time_to_exhaustion_hours forecast))]
               (Some [(''alert_type'', ''budget_critical'')]) now)
      else Inr (None, db))"

text \<open>
  \<open>evaluate_and_alert\<close>. An exception inside the \<open>try\<close> block ends the evaluation; the
  alerts created before it stay in the list and in the table.
\<close>

definition evaluate_and_alert ::
  "Settings \<Rightarrow> database \<Rightarrow> int \<Rightarrow> datetime \<Rightarrow> Alert list \<times> database" where
  "evaluate_and_alert cfg db service_id now =
     (case find (\<lambda>s. svc_id s = service_id) (services db) of
        None \<Rightarrow> ([], db)
      | Some service \<Rightarrow>
          (case compute_burn_rate cfg db service_id 60 now of
             Inl e \<Rightarrow> ([], db)
           | Inr burn \<Rightarrow>
               (case budget_alert cfg db service burn now of
                  Inl e \<Rightarrow> ([], db)
                | Inr (alert1, db1) \<Rightarrow>
                    if brc_burn_rate burn \<ge> 2.0 then
                      (case create_alert cfg db1 service_id ''burn_rate_high'' UI
                              [(''service'', svc_name service),
                               (''rate'', fmt_fixed 1 (brc_burn_rate burn)),
                               (''risk'', str_upper (risk_value (brc_risk_level burn)))]
                              (Some [(''alert_type'', ''burn_rate_high'')]) now of
                         Inl e \<Rightarrow> (alert_list alert1, db1)
                       | Inr (alert2, db2) \<Rightarrow> (alert_list alert1 @ alert_list alert2, db2))
                    else (alert_list alert1, db1))))"

text \<open>A sequence of \<open>evaluate_and_alert\<close> calls, each given as (service id, clock reading).\<close>

fun evaluate_sequence :: "Settings \<Rightarrow> database \<Rightarrow> (int \<times> datetime) list \<Rightarrow> database" where
  "evaluate_sequence cfg db [] = db"
| "evaluate_sequence cfg db (call # calls) =
     evaluate_sequence cfg (snd (evaluate_and_alert cfg db (fst call) (snd call))) calls"

section \<open>Metric ingestion (schemas.py, services/metrics\_service.py, api/endpoints/metrics.py)\<close>

record MetricSnapshot =
  ms_service :: string
  ms_timestamp :: datetime
  ms_total_requests :: int
  ms_error_count :: int
  ms_latency_p50 :: "real option"
  ms_latency_p95 :: "real option"
  ms_latency_p99 :: "real option"

text \<open>The field constraints of the schema: \<open>total_requests\<close> and \<open>error_count\<close> are \<open>ge=0\<close>.\<close>

definition validate_MetricSnapshot :: "MetricSnapshot \<Rightarrow> error + MetricSnapshot" where
  "validate_MetricSnapshot snap =
     (if ms_total_requests snap \<ge> 0 \<and> ms_error_count snap \<ge> 0 then Inr snap
      else Inl ValidationError)"

fun validate_MetricsIngestRequest :: "MetricSnapshot list \<Rightarrow> error + MetricSnapshot list" where
  "validate_MetricsIngestRequest [] = Inr []"
| "validate_MetricsIngestRequest (snap # rest) =
     (case validate_MetricSnapshot snap of
        Inl e \<Rightarrow> Inl e
      | Inr v \<Rightarrow>
          (case validate_MetricsIngestRequest rest of
             Inl e \<Rightarrow> Inl e
           | Inr vs \<Rightarrow> Inr (v # vs)))"

text \<open>The primary key that the flush gives a new \<open>Service\<close> row.\<close>

definition next_service_id :: "database \<Rightarrow> int" where
  "next_service_id db = fold max (map svc_id (services db)) 0 + 1"

text \<open>One pass of the loop of \<open>ingest_metrics\<close>; nothing in it raises.\<close>

definition ingest_one :: "database \<Rightarrow> MetricSnapshot \<Rightarrow> database" where
  "ingest_one db metric =
     (let found = find (\<lambda>s. svc_name s = ms_service metric) (services db);
          service =
            (case found of
               None \<Rightarrow> \<lparr> svc_id = next_service_id db, svc_name = ms_service metric,
                          svc_is_active = True \<rparr>
             | Some s \<Rightarrow> s);
          db1 = (case found of None \<Rightarrow> db\<lparr>services := services db @ [service]\<rparr> | Some s \<Rightarrow> db);
          success_rate =
            (if ms_total_requests metric > 0
               then Some (of_int (ms_total_requests metric - ms_error_count metric)
                            / of_int (ms_total_requests metric) * 100)
             else None);
          db_metric =
            \<lparr> m_service_id = svc_id service,
              m_timestamp = ms_timestamp metric,
              m_total_requests = ms_total_requests metric,
              m_error_count = ms_error_count metric,
              m_latency_p50 = ms_latency_p50 metric,
              m_latency_p95 = ms_latency_p95 metric,
              m_latency_p99 = ms_latency_p99 metric,
              m_success_rate = success_rate \<rparr>
      in db1\<lparr>metrics := metrics db1 @ [db_metric]\<rparr>)"

text \<open>\<open>ingest_metrics\<close> returns the counters \<open>processed\<close> and \<open>errors\<close>.\<close>

fun ingest_loop :: "database \<Rightarrow> int \<Rightarrow> int \<Rightarrow> MetricSnapshot list \<Rightarrow> (int \<times> int) \<times> database" where
  "ingest_loop db processed errors [] = ((processed, errors), db)"
| "ingest_loop db processed errors (metric # rest) =
     ingest_loop (ingest_one db metric) (processed + 1) errors rest"

definition ingest_metrics :: "database \<Rightarrow> MetricSnapshot list \<Rightarrow> (int \<times> int) \<times> database" where
  "ingest_metrics db metrics_in = ingest_loop db 0 0 metrics_in"

text \<open>
  The endpoint \<open>POST /metrics/ingest\<close>: the request body is validated against the schema
  before the handler runs; an invalid body is answered with the validation error.
\<close>

definition ingest_endpoint :: "database \<Rightarrow> MetricSnapshot list \<Rightarrow> error + ((int \<times> int) \<times> database)" where
  "ingest_endpoint db body =
     (case validate_MetricsIngestRequest body of
        Inl e \<Rightarrow> Inl e
      | Inr metrics_in \<Rightarrow> Inr (ingest_metrics db metrics_in))"

section \<open>The risk table as the specification words it\<close>

text \<open>
  The specification gives the risk level as the maximum of two levels, one per
  dimension, each read off a table of inclusive lower cutoffs (the defaults).
\<close>

definition level_by_burn :: "real \<Rightarrow> RiskLevel" where
  "level_by_burn burn_rate =
     (if burn_rate \<ge> 3.0 then FREEZE
      else if burn_rate \<ge> 2.0 then DANGER
      else if burn_rate \<ge> 1.5 then OBSERVE
      else SAFE)"

definition level_by_budget :: "real \<Rightarrow> RiskLevel" where
  "level_by_budget budget_consumed =
     (if budget_consumed \<ge> 95 then FREEZE
      else if budget_consumed \<ge> 85 then DANGER
      else if budget_consumed \<ge> 70 then OBSERVE
      else SAFE)"

definition risk_max :: "RiskLevel \<Rightarrow> RiskLevel \<Rightarrow> RiskLevel" where
  "risk_max a b = (if risk_severity a \<ge> risk_severity b then a else b)"

section \<open>Example states\<close>

definition empty_db :: database where
  "empty_db = \<lparr> services = [], metrics = [], slo_targets = [], burn_history = [],
                 deployments = [], alerts = [] \<rparr>"

definition api_service :: Service where
  "api_service = \<lparr> svc_id = 1, svc_name = ''api-gateway'', svc_is_active = True \<rparr>"

definition metric_row :: "datetime \<Rightarrow> int \<Rightarrow> int \<Rightarrow> Metric" where
  "metric_row ts requests errs =
     \<lparr> m_service_id = 1, m_timestamp = ts, m_total_requests = requests, m_error_count = errs,
       m_latency_p50 = None, m_latency_p95 = None, m_latency_p99 = None, m_success_rate = None \<rparr>"

text \<open>A registered service without any metric.\<close>

definition idle_db :: database where
  "idle_db = empty_db\<lparr>services := [api_service]\<rparr>"

text \<open>The service with 600,000 requests and 120 errors at second 1000.\<close>

definition healthy_db :: database where
  "healthy_db = idle_db\<lparr>metrics := [metric_row 1000 600000 120]\<rparr>"

text \<open>The service with two metric rows at second 1000 whose request counts add up to \<open>2 ^ 63\<close>.\<close>

definition overflow_db :: database where
  "overflow_db =
     idle_db\<lparr>metrics := [metric_row 1000 4611686018427387904 0,
                          metric_row 1000 4611686018427387904 0]\<rparr>"

text \<open>The service with 600,000 requests and 1,500 errors at second 1000.\<close>

definition burning_db :: database where
  "burning_db = idle_db\<lparr>metrics := [metric_row 1000 600000 1500]\<rparr>"

text \<open>The burn-rate computation of \<open>healthy_db\<close> over the last hour, at second 1800.\<close>

definition healthy_burn :: BurnRateComputation where
  "healthy_burn =
     \<lparr> brc_service_id = 1, brc_service_name = ''api-gateway'', brc_timestamp = 1800,
       brc_window_minutes = 60, brc_current_error_rate = 0.0002, brc_allowed_error_rate = 0.001,
       brc_burn_rate = 0.2, brc_error_budget_consumed = 20, brc_error_budget_remaining = 80,
       brc_risk_level = SAFE, brc_risk_color = ''#22c55e'',
       brc_risk_action = ''Normal operations'' \<rparr>"

definition availability_slo :: SLOTarget where
  "availability_slo =
     \<lparr> slo_service_id = 1, slo_name = ''availability'', slo_target_value = 99.9,
       slo_window_days = 30, slo_critical_burn_rate = 2.0, slo_is_active = True \<rparr>"

text \<open>
  The service with a three-point burn history rising by 0.05 per hour, and its forecast
  at second 7200.
\<close>

definition history_row :: "datetime \<Rightarrow> real \<Rightarrow> BurnHistory" where
  "history_row ts rate =
     \<lparr> bh_service_id = 1, bh_timestamp = ts, bh_window_minutes = 60, bh_burn_rate = rate,
       bh_error_budget_consumed = 20, bh_error_budget_remaining = 80,
       bh_time_to_exhaustion_hours = None, bh_risk_level = SAFE \<rparr>"

definition rising_history :: "BurnHistory list" where
  "rising_history = [history_row 0 1.0, history_row 3600 1.05, history_row 7200 1.1]"

definition trend_db :: database where
  "trend_db = idle_db\<lparr>metrics := [metric_row 7000 600000 120],
                       burn_history := rising_history\<rparr>"

definition small_trend :: Trend where
  "small_trend = \<lparr> slope = 1 / 20, direction = ''stable'', confidence = ''medium'',
                    r_squared = 1, data_points = 3 \<rparr>"

definition trend_forecast :: ForecastResponse where
  "trend_forecast =
     \<lparr> fr_service_id = 1, fr_service_name = ''api-gateway'', fr_computed_at = 7200,
       fr_current_burn_rate = 1 / 5, fr_error_budget_remaining = 80,
       fr_time_to_exhaustion_hours = Some 2304, fr_projected_exhaustion_time = Some 8301600,
       fr_confidence_level = ''medium'', fr_burn_rate_trend = ''stable'', fr_trend_slope = 1 / 20,
       fr_forecast_message =
         generate_forecast_message ''api-gateway'' (1 / 5) 80 (Some 2304) ''stable'' \<rparr>"

text \<open>
  The burning service with a \<open>burn_rate_high\<close> alert stored at second 1800, and the
  template variables of that alert.
\<close>

definition recent_alert :: Alert where
  "recent_alert =
     \<lparr> al_service_id = 1, al_timestamp = 1800, al_severity = WARNING, al_channel = UI,
       al_title = ''[ALERT] High Burn Rate: api-gateway'', al_message = ''high burn rate'',
       al_alert_metadata = Some [(''alert_type'', ''burn_rate_high'')],
       al_sent = True, al_sent_at = Some 1800 \<rparr>"

definition cooling_db :: database where
  "cooling_db = burning_db\<lparr>alerts := [recent_alert]\<rparr>"

definition burn_vars :: "(string \<times> string) list" where
  "burn_vars = [(''service'', ''api-gateway''), (''rate'', ''2.5''), (''risk'', ''FREEZE'')]"

text \<open>Release requests, and settings whose release-gate burn-rate threshold is 0.1.\<close>

definition override_request :: ReleaseCheckRequest where
  "override_request =
     \<lparr> req_service_name = ''api-gateway'', req_deployment_id = ''deploy-1'', req_version = None,
       req_requested_by = None, req_override = True,
       req_override_reason = Some ''hotfix for CVE-2024-X'' \<rparr>"

definition plain_request :: ReleaseCheckRequest where
  "plain_request = override_request\<lparr>req_override := False, req_override_reason := None\<rparr>"

definition no_id_request :: ReleaseCheckRequest where
  "no_id_request = plain_request\<lparr>req_deployment_id := []\<rparr>"

definition gate_settings :: Settings where
  "gate_settings = default_settings\<lparr>RELEASE_GATE_BURN_RATE_THRESHOLD := 0.1\<rparr>"

definition unknown_response :: ReleaseCheckResponse where
  "unknown_response =
     \<lparr> resp_allowed = False,
       resp_reason = ''Service '' @ [CHR 0x27] @ ''api-gateway'' @ [CHR 0x27] @ '' not found'',
       resp_service_name = ''api-gateway'', resp_deployment_id = ''deploy-1'',
       resp_current_risk_level = FREEZE, resp_current_burn_rate = 0,
       resp_error_budget_remaining = 0, resp_time_to_exhaustion_hours = None,
       resp_recommendations = [''Register the service before deploying''],
       resp_checked_at = 1800, resp_checked_by = ''system'' \<rparr>"

text \<open>A snapshot of an unregistered service with more errors than requests, the state after
  its ingestion into the empty database, and a snapshot with a negative error count.\<close>

definition ghost_snapshot :: MetricSnapshot where
  "ghost_snapshot =
     \<lparr> ms_service = ''ghost'', ms_timestamp = 1000, ms_total_requests = 3, ms_error_count = 5,
       ms_latency_p50 = None, ms_latency_p95 = None, ms_latency_p99 = None \<rparr>"

definition ghost_db :: database where
  "ghost_db =
     empty_db\<lparr>services := [\<lparr> svc_id = 1, svc_name = ''ghost'', svc_is_active = True \<rparr>],
              metrics := [\<lparr> m_service_id = 1, m_timestamp = 1000, m_total_requests = 3,
                            m_error_count = 5, m_latency_p50 = None, m_latency_p95 = None,
                            m_latency_p99 = None, m_success_rate = Some (- 200 / 3) \<rparr>]\<rparr>"

definition negative_snapshot :: MetricSnapshot where
  "negative_snapshot = ghost_snapshot\<lparr>ms_error_count := - 1\<rparr>"

section \<open>Rounding\<close>

lemma round_half_even_of_int: "round_half_even (of_int k) = k"
  by (simp add: round_half_even_def)

lemma round_half_even_cases:
  "round_half_even x = \<lfloor>x\<rfloor> \<and> frac x \<le> 1 / 2 \<or> round_half_even x = \<lfloor>x\<rfloor> + 1 \<and> 1 / 2 \<le> frac x"
  unfolding round_half_even_def Let_def by (cases "frac x < 1 / 2"; cases "1 / 2 < frac x") auto

lemma round_half_even_lower:
  assumes "of_int k \<le> x" shows "k \<le> round_half_even x"
proof -
  from assms have "k \<le> \<lfloor>x\<rfloor>" by (simp add: le_floor_iff)
  with round_half_even_cases [of x] show ?thesis by auto
qed

lemma round_half_even_upper:
  assumes h: "x \<le> of_int k" shows "round_half_even x \<le> k"
proof -
  have x: "x = of_int \<lfloor>x\<rfloor> + frac x" by (simp add: frac_def)
  from round_half_even_cases [of x] show ?thesis
  proof (elim disjE conjE)
    assume "round_half_even x = \<lfloor>x\<rfloor>"
    moreover from h have "\<lfloor>x\<rfloor> \<le> k" by linarith
    ultimately show ?thesis by simp
  next
    assume r: "round_half_even x = \<lfloor>x\<rfloor> + 1" and f: "1 / 2 \<le> frac x"
    from x f have "of_int \<lfloor>x\<rfloor> < x" by linarith
    with h have "(of_int \<lfloor>x\<rfloor> :: real) < of_int k" by linarith
    then have "\<lfloor>x\<rfloor> < k" by simp
    with r show ?thesis by simp
  qed
qed

lemma round_half_even_close: "\<bar>of_int (round_half_even x) - x\<bar> \<le> 1 / 2"
proof -
  have x: "x = of_int \<lfloor>x\<rfloor> + frac x" by (simp add: frac_def)
  have f0: "0 \<le> frac x" and f1: "frac x < 1" by (simp_all add: frac_lt_1)
  from round_half_even_cases [of x] show ?thesis
  proof (elim disjE conjE)
    assume "round_half_even x = \<lfloor>x\<rfloor>" and "frac x \<le> 1 / 2"
    with x f0 show ?thesis by linarith
  next
    assume r: "round_half_even x = \<lfloor>x\<rfloor> + 1" and "1 / 2 \<le> frac x"
    then have "of_int (round_half_even x) - x = 1 - frac x" using x by simp
    with f1 \<open>1 / 2 \<le> frac x\<close> show ?thesis by linarith
  qed
qed

lemma py_round_lower: "of_int k / 10 ^ n \<le> x \<Longrightarrow> of_int k / 10 ^ n \<le> py_round x n"
proof -
  assume "of_int k / 10 ^ n \<le> x"
  then have "of_int k \<le> x * 10 ^ n" by (simp add: pos_divide_le_eq)
  then have "k \<le> round_half_even (x * 10 ^ n)" by (rule round_half_even_lower)
  then have "(of_int k :: real) \<le> of_int (round_half_even (x * 10 ^ n))" by simp
  then show ?thesis unfolding py_round_def by (simp add: divide_right_mono)
qed

lemma py_round_upper: "x \<le> of_int k / 10 ^ n \<Longrightarrow> py_round x n \<le> of_int k / 10 ^ n"
proof -
  assume "x \<le> of_int k / 10 ^ n"
  then have "x * 10 ^ n \<le> of_int k" by (simp add: pos_le_divide_eq)
  then have "round_half_even (x * 10 ^ n) \<le> k" by (rule round_half_even_upper)
  then have "(of_int (round_half_even (x * 10 ^ n)) :: real) \<le> of_int k" by simp
  then show ?thesis unfolding py_round_def by (simp add: divide_right_mono)
qed

lemma py_round_nonneg: "0 \<le> x \<Longrightarrow> 0 \<le> py_round x n"
  using py_round_lower [of 0 n x] by simp

lemma py_round_le_100: "x \<le> 100 \<Longrightarrow> py_round x 2 \<le> 100"
  using py_round_upper [of x 10000 2] by simp

lemma py_round_close: "\<bar>py_round x n - x\<bar> \<le> 1 / (2 * 10 ^ n)"
proof -
  have "py_round x n - x = (of_int (round_half_even (x * 10 ^ n)) - x * 10 ^ n) / 10 ^ n"
    unfolding py_round_def by (simp add: diff_divide_distrib)
  then have "\<bar>py_round x n - x\<bar> = \<bar>of_int (round_half_even (x * 10 ^ n)) - x * 10 ^ n\<bar> / 10 ^ n"
    by simp
  also have "\<dots> \<le> (1 / 2) / 10 ^ n"
    by (rule divide_right_mono [OF round_half_even_close]) simp
  finally show ?thesis by simp
qed

lemma py_round_zero: "py_round 0 n = 0"
  by (simp add: py_round_def round_half_even_def)

lemma py_round_100: "py_round 100 2 = 100"
  using round_half_even_of_int [of 10000] by (simp add: py_round_def)

lemma py_round_eval:
  "py_round (1 / 5000) 6 = 1 / 5000" "py_round (1 / 1000) 6 = 1 / 1000"
  "py_round (1 / 5) 3 = 1 / 5" "py_round 20 2 = 20" "py_round 80 2 = 80"
  "py_round 2304 2 = 2304" "py_round (1 / 20) 4 = 1 / 20"
  "py_round (360 / 7) 2 = 5143 / 100" "py_round 180 2 = 180" "py_round 2880 2 = 2880"
  by (simp_all add: py_round_def round_half_even_def Let_def frac_def)

section \<open>Risk classification\<close>

lemma classify_default:
  "classify_risk default_settings b c = risk_max (level_by_burn b) (level_by_budget c)"
  by (simp add: classify_risk_def default_settings_def risk_max_def level_by_burn_def
      level_by_budget_def)

lemma severity_level_by_burn_mono:
  "b \<le> b' \<Longrightarrow> risk_severity (level_by_burn b) \<le> risk_severity (level_by_burn b')"
  by (simp add: level_by_burn_def)

lemma severity_level_by_budget_mono:
  "c \<le> c' \<Longrightarrow> risk_severity (level_by_budget c) \<le> risk_severity (level_by_budget c')"
  by (simp add: level_by_budget_def)

lemma severity_risk_max: "risk_severity (risk_max a b) = max (risk_severity a) (risk_severity b)"
  by (simp add: risk_max_def max_def)

text \<open>
  C4. With the default thresholds, \<open>_classify_risk\<close> returns the more severe of the level
  that the burn rate implies and the level that the consumed budget implies (cutoffs 3.0,
  2.0, 1.5 and 95, 85, 70, each inclusive), and raising either input while the other is
  held fixed never lowers the severity of the result.
\<close>

theorem classify_risk_max_monotone:
  "classify_risk default_settings b c = risk_max (level_by_burn b) (level_by_budget c)
   \<and> (b \<le> b' \<longrightarrow> risk_severity (classify_risk default_settings b c)
                    \<le> risk_severity (classify_risk default_settings b' c))
   \<and> (c \<le> c' \<longrightarrow> risk_severity (classify_risk default_settings b c)
                    \<le> risk_severity (classify_risk default_settings b c'))"
proof (intro conjI impI)
  show "classify_risk default_settings b c = risk_max (level_by_burn b) (level_by_budget c)"
    by (rule classify_default)
next
  assume "b \<le> b'"
  then show "risk_severity (classify_risk default_settings b c)
               \<le> risk_severity (classify_risk default_settings b' c)"
    using severity_level_by_burn_mono [of b b']
    by (simp add: classify_default severity_risk_max)
next
  assume "c \<le> c'"
  then show "risk_severity (classify_risk default_settings b c)
               \<le> risk_severity (classify_risk default_settings b c')"
    using severity_level_by_budget_mono [of c c']
    by (simp add: classify_default severity_risk_max)
qed

theorem classify_risk_max_monotone_witness:
  "classify_risk default_settings 1 90 = risk_max SAFE DANGER
   \<and> (1::real) \<le> 3
   \<and> risk_severity (classify_risk default_settings 1 90) \<le> risk_severity (classify_risk default_settings 3 90)
   \<and> (90::real) \<le> 96
   \<and> risk_severity (classify_risk default_settings 1 90) \<le> risk_severity (classify_risk default_settings 1 96)"
  using classify_risk_max_monotone [of 1 90 3 96]
  by (simp add: classify_risk_def default_settings_def risk_max_def level_by_burn_def
      level_by_budget_def)

section \<open>Budget percentages\<close>

lemma sum_list_nonneg_int: "(\<forall>x\<in>set xs. (0::int) \<le> x) \<Longrightarrow> 0 \<le> sum_list xs"
  by (induction xs) auto

lemma window_totals_nonneg:
  assumes "\<forall>m\<in>set (metrics db). 0 \<le> m_total_requests m \<and> 0 \<le> m_error_count m"
  shows "0 \<le> or_zero (fst (window_totals db sid ws now))
         \<and> 0 \<le> or_zero (snd (window_totals db sid ws now))"
  using assms
  by (auto simp: window_totals_def window_rows_def sql_sum_def Let_def intro!: sum_list_nonneg_int)

text \<open>The two percentages of both engines, before they are rounded.\<close>

lemma budget_percentages:
  fixes e tb :: real
  assumes "0 \<le> e"
  defines "c \<equiv> (if tb > 0 then min ((e / tb) * 100) 100 else 0)"
  defines "r \<equiv> (if tb > 0 then max (100 - c) 0 else 100)"
  shows "0 \<le> c \<and> c \<le> 100 \<and> r = 100 - c"
  using assms by (auto simp: min_def max_def)

lemma rounded_percentages:
  fixes c :: real
  assumes "0 \<le> c" "c \<le> 100"
  shows "\<bar>py_round c 2 + py_round (100 - c) 2 - 100\<bar> \<le> 1 / 100
         \<and> 0 \<le> py_round c 2 \<and> py_round c 2 \<le> 100
         \<and> 0 \<le> py_round (100 - c) 2 \<and> py_round (100 - c) 2 \<le> 100"
proof -
  have a: "\<bar>py_round c 2 - c\<bar> \<le> 1 / 200" using py_round_close [of c 2] by simp
  have b: "\<bar>py_round (100 - c) 2 - (100 - c)\<bar> \<le> 1 / 200"
    using py_round_close [of "100 - c" 2] by simp
  from a b have "\<bar>py_round c 2 + py_round (100 - c) 2 - 100\<bar> \<le> 1 / 100" by linarith
  with assms show ?thesis by (simp add: py_round_nonneg py_round_le_100)
qed

lemma find_service_None:
  "find (\<lambda>s. svc_id s = sid) (services db) = None \<longleftrightarrow> sid \<notin> svc_id ` set (services db)"
  by (auto simp: find_None_iff)

lemma datetime_minus_Inr: "datetime_minus t s = Inr ws \<Longrightarrow> ws = t - s"
  by (auto simp: datetime_minus_def timedelta_def datetime_add_def split: if_splits)

lemma datetime_plus_Inr: "datetime_plus t s = Inr ws \<Longrightarrow> ws = t + s"
  by (auto simp: datetime_plus_def timedelta_def datetime_add_def split: if_splits)

lemma datetime_minus_error: "datetime_minus t s = Inl e \<Longrightarrow> e = OverflowError"
  by (auto simp: datetime_minus_def timedelta_def datetime_add_def split: if_splits)

lemma datetime_plus_error: "datetime_plus t s = Inl e \<Longrightarrow> e = OverflowError"
  by (auto simp: datetime_plus_def timedelta_def datetime_add_def split: if_splits)

text \<open>What a returned burn-rate computation says about the call.\<close>

lemma compute_burn_rate_returned:
  assumes "compute_burn_rate cfg db sid w now = Inr r"
  obtains s where "find (\<lambda>s. svc_id s = sid) (services db) = Some s"
    and "datetime_minus now (of_int w * 60) = Inr (now - of_int w * 60)"
    and "window_sums_in_range db sid (now - of_int w * 60) now"
proof -
  from assms obtain s where s: "find (\<lambda>s. svc_id s = sid) (services db) = Some s"
    by (cases "find (\<lambda>s. svc_id s = sid) (services db)") (simp_all add: compute_burn_rate_def)
  from assms s obtain ws where ws: "datetime_minus now (of_int w * 60) = Inr ws"
    by (cases "datetime_minus now (of_int w * 60)") (simp_all add: compute_burn_rate_def Let_def)
  from datetime_minus_Inr [OF ws] have e: "ws = now - of_int w * 60" .
  from assms s ws have "window_sums_in_range db sid ws now"
    by (cases "window_sums_in_range db sid ws now") (simp_all add: compute_burn_rate_def Let_def)
  with s ws e that show thesis by simp
qed

lemma datetime_minus_eval:
  "datetime_minus 1800 3600 = Inr (- 1800)"
  "datetime_minus 1800 300 = Inr 1500"
  "datetime_minus 1800 86400 = Inr (- 84600)"
  "datetime_minus 7200 3600 = Inr 3600"
  by (simp_all add: datetime_minus_def timedelta_def datetime_add_def datetime_min_def
      datetime_max_def)

lemma healthy_db_service: "find (\<lambda>s. svc_id s = 1) (services healthy_db) = Some api_service"
  by (simp add: healthy_db_def idle_db_def empty_db_def api_service_def)

lemma healthy_db_target: "availability_target healthy_db 1 = None"
  by (simp add: availability_target_def healthy_db_def idle_db_def empty_db_def)

lemma healthy_db_rows: "window_rows healthy_db 1 (- 1800) 1800 = [metric_row 1000 600000 120]"
  by (simp add: window_rows_def healthy_db_def idle_db_def empty_db_def metric_row_def)

lemma healthy_db_totals: "window_totals healthy_db 1 (- 1800) 1800 = (Some 600000, Some 120)"
  by (simp add: window_totals_def healthy_db_rows metric_row_def sql_sum_def)

lemma healthy_db_sums: "window_sums_in_range healthy_db 1 (- 1800) 1800"
  by (simp add: window_sums_in_range_def healthy_db_rows metric_row_def)

lemma healthy_burn_eval: "compute_burn_rate default_settings healthy_db 1 60 1800 = Inr healthy_burn"
  by (simp add: compute_burn_rate_def healthy_db_service healthy_db_target healthy_db_totals
      healthy_db_sums datetime_minus_eval Let_def classify_risk_def default_settings_def
      py_round_eval healthy_burn_def api_service_def)

text \<open>
  C5. When no metric row has a negative request or error count, every result of
  \<open>compute_burn_rate\<close> and every result of \<open>_compute_single_slo\<close> has consumed and
  remaining percentages that add up to 100 within the two roundings to two decimals
  (at most 0.01 off), each of them between 0 and 100.
\<close>

theorem budget_percentages_sum:
  assumes nonneg: "\<forall>m\<in>set (metrics db). 0 \<le> m_total_requests m \<and> 0 \<le> m_error_count m"
  shows "(compute_burn_rate cfg db sid w now = Inr r \<longrightarrow>
            \<bar>brc_error_budget_consumed r + brc_error_budget_remaining r - 100\<bar> \<le> 1 / 100
            \<and> 0 \<le> brc_error_budget_consumed r \<and> brc_error_budget_consumed r \<le> 100
            \<and> 0 \<le> brc_error_budget_remaining r \<and> brc_error_budget_remaining r \<le> 100)
       \<and> (\<bar>sc_consumed_percentage (compute_single_slo db service slo now)
             + sc_remaining_percentage (compute_single_slo db service slo now) - 100\<bar> \<le> 1 / 100
            \<and> 0 \<le> sc_consumed_percentage (compute_single_slo db service slo now)
            \<and> sc_consumed_percentage (compute_single_slo db service slo now) \<le> 100
            \<and> 0 \<le> sc_remaining_percentage (compute_single_slo db service slo now)
            \<and> sc_remaining_percentage (compute_single_slo db service slo now) \<le> 100)"
proof (rule conjI, rule impI)
  assume a: "compute_burn_rate cfg db sid w now = Inr r"
  then obtain s where s: "find (\<lambda>s. svc_id s = sid) (services db) = Some s"
    and ws: "datetime_minus now (of_int w * 60) = Inr (now - of_int w * 60)"
    and ok: "window_sums_in_range db sid (now - of_int w * 60) now"
    by (rule compute_burn_rate_returned)
  let ?tot = "window_totals db sid (now - of_int w * 60) now"
  let ?e = "of_int (or_zero (snd ?tot)) :: real"
  let ?tb = "of_int (or_zero (fst ?tot))
               * ((100 - (case availability_target db sid of None \<Rightarrow> 99.9
                          | Some t \<Rightarrow> slo_target_value t)) / 100) :: real"
  let ?c = "if ?tb > 0 then min ((?e / ?tb) * 100) 100 else 0"
  let ?r = "if ?tb > 0 then max (100 - ?c) 0 else 100"
  from a have r: "r = projr (compute_burn_rate cfg db sid w now)" by simp
  have fc: "brc_error_budget_consumed r = py_round ?c 2"
    unfolding r compute_burn_rate_def s by (simp add: Let_def ws ok)
  have fr: "brc_error_budget_remaining r = py_round ?r 2"
    unfolding r compute_burn_rate_def s by (simp add: Let_def ws ok)
  have e0: "0 \<le> ?e" using window_totals_nonneg [OF nonneg] by simp
  from budget_percentages [OF e0, of ?tb]
  have c: "0 \<le> ?c" "?c \<le> 100" and rc: "?r = 100 - ?c" by blast+
  show "\<bar>brc_error_budget_consumed r + brc_error_budget_remaining r - 100\<bar> \<le> 1 / 100
            \<and> 0 \<le> brc_error_budget_consumed r \<and> brc_error_budget_consumed r \<le> 100
            \<and> 0 \<le> brc_error_budget_remaining r \<and> brc_error_budget_remaining r \<le> 100"
    unfolding fc fr rc by (rule rounded_percentages [OF c])
next
  let ?tot = "window_totals db (svc_id service) (now - of_int (slo_window_days slo) * 86400) now"
  let ?e = "of_int (or_zero (snd ?tot)) :: real"
  let ?tb = "(if or_zero (fst ?tot) > 0
               then of_int (or_zero (fst ?tot)) * (1 - slo_target_value slo / 100) else 0) :: real"
  let ?c = "if ?tb > 0 then min ((?e / ?tb) * 100) 100 else 0"
  let ?r = "if ?tb > 0 then max (100 - ?c) 0 else 100"
  let ?s = "compute_single_slo db service slo now"
  have fc: "sc_consumed_percentage ?s = py_round ?c 2"
    unfolding compute_single_slo_def by (simp add: Let_def)
  have fr: "sc_remaining_percentage ?s = py_round ?r 2"
    unfolding compute_single_slo_def by (simp add: Let_def)
  have e0: "0 \<le> ?e" using window_totals_nonneg [OF nonneg] by simp
  from budget_percentages [OF e0, of ?tb]
  have c: "0 \<le> ?c" "?c \<le> 100" and rc: "?r = 100 - ?c" by blast+
  show "\<bar>sc_consumed_percentage ?s + sc_remaining_percentage ?s - 100\<bar> \<le> 1 / 100
            \<and> 0 \<le> sc_consumed_percentage ?s \<and> sc_consumed_percentage ?s \<le> 100
            \<and> 0 \<le> sc_remaining_percentage ?s \<and> sc_remaining_percentage ?s \<le> 100"
    unfolding fc fr rc by (rule rounded_percentages [OF c])
qed

theorem budget_percentages_sum_witness:
  "list_all (\<lambda>m. 0 \<le> m_total_requests m \<and> 0 \<le> m_error_count m) (metrics healthy_db)
   \<and> compute_burn_rate default_settings healthy_db 1 60 1800 = Inr healthy_burn
   \<and> \<bar>brc_error_budget_consumed healthy_burn + brc_error_budget_remaining healthy_burn - 100\<bar> \<le> 1 / 100
   \<and> brc_error_budget_consumed healthy_burn = 20
   \<and> sc_consumed_percentage (compute_single_slo healthy_db api_service availability_slo 1800) \<le> 100"
proof -
  have h: "\<forall>m\<in>set (metrics healthy_db). 0 \<le> m_total_requests m \<and> 0 \<le> m_error_count m"
    by (simp add: healthy_db_def idle_db_def empty_db_def metric_row_def)
  from budget_percentages_sum [OF h, of default_settings 1 60 1800 healthy_burn api_service
      availability_slo] healthy_burn_eval h
  show ?thesis by (simp add: healthy_burn_def list_all_iff)
qed

section \<open>Failure and absent data in the burn-rate engine\<close>

lemma find_service_Some:
  assumes "sid \<in> svc_id ` set (services db)"
  obtains s where "find (\<lambda>s. svc_id s = sid) (services db) = Some s"
  using assms find_service_None [of sid db]
  by (cases "find (\<lambda>s. svc_id s = sid) (services db)") auto

lemma classify_risk_zero:
  "classify_risk cfg 0 0 = SAFE
     \<longleftrightarrow> 0 < BURN_RATE_OBSERVE_THRESHOLD cfg \<and> 0 < BURN_RATE_DANGER_THRESHOLD cfg
         \<and> 0 < BURN_RATE_FREEZE_THRESHOLD cfg \<and> 0 < ERROR_BUDGET_OBSERVE_THRESHOLD cfg
         \<and> 0 < ERROR_BUDGET_DANGER_THRESHOLD cfg \<and> 0 < ERROR_BUDGET_FREEZE_THRESHOLD cfg"
  by (auto simp: classify_risk_def)

lemma idle_db_services:
  "2 \<notin> svc_id ` set (services idle_db)" "1 \<in> svc_id ` set (services idle_db)"
  by (simp_all add: idle_db_def empty_db_def api_service_def)

lemma idle_db_rows: "window_rows idle_db 1 ws now = []"
  by (simp add: window_rows_def idle_db_def empty_db_def)

lemma overflow_db_sums:
  "1 \<in> svc_id ` set (services overflow_db)"
  "\<not> window_sums_in_range overflow_db 1 (1800 - of_int 60 * 60) 1800"
  by (simp_all add: window_sums_in_range_def window_rows_def overflow_db_def idle_db_def
      empty_db_def metric_row_def api_service_def)

lemma datetime_minus_overflow: "datetime_minus 1800 120000000000 = Inl OverflowError"
  by (simp add: datetime_minus_def timedelta_def datetime_add_def datetime_min_def
      datetime_max_def)

text \<open>
  C8, as the claim states it, fails: for a registered service and a window of
  2,000,000,000 minutes the window start would lie before year 1, and the call raises
  \<open>OverflowError\<close> although the service id is present.
\<close>

theorem compute_burn_rate_overflow_counterexample:
  "1 \<in> svc_id ` set (services idle_db)
   \<and> compute_burn_rate default_settings idle_db 1 2000000000 1800 = Inl OverflowError"
proof -
  have s: "find (\<lambda>s. svc_id s = 1) (services idle_db) = Some api_service"
    by (simp add: idle_db_def empty_db_def api_service_def)
  have "compute_burn_rate default_settings idle_db 1 2000000000 1800 = Inl OverflowError"
    unfolding compute_burn_rate_def s by (simp add: Let_def datetime_minus_overflow)
  with idle_db_services show ?thesis by simp
qed

text \<open>
  C8, amended. \<open>compute_burn_rate\<close> raises the \<open>ValueError\<close> of an unknown service exactly when
  no service has the given id. For a registered service it raises \<open>OverflowError\<close>
  exactly when the start of the window, the clock reading minus \<open>window_minutes\<close>, is
  not a \<open>datetime\<close>; it fails with a database error exactly when the window start
  exists and a sum over the rows of the window overflows; and it returns in every other
  case. When the service is registered, the window start exists and no metric row falls
  in the window, it returns burn rate 0, error rate 0, consumed budget 0, remaining
  budget 100 and the risk level that \<open>_classify_risk\<close> gives to (0, 0), which is SAFE
  exactly when all six risk thresholds of the settings are positive, as the default ones
  are.
\<close>

theorem compute_burn_rate_errors:
  "((\<exists>msg. compute_burn_rate cfg db sid w now = Inl (ValueError msg))
       \<longleftrightarrow> sid \<notin> svc_id ` set (services db))
   \<and> (sid \<in> svc_id ` set (services db) \<longrightarrow>
         (compute_burn_rate cfg db sid w now = Inl OverflowError
            \<longleftrightarrow> datetime_minus now (of_int w * 60) = Inl OverflowError)
         \<and> (compute_burn_rate cfg db sid w now = Inl DatabaseError
            \<longleftrightarrow> datetime_minus now (of_int w * 60) = Inr (now - of_int w * 60)
                \<and> \<not> window_sums_in_range db sid (now - of_int w * 60) now)
         \<and> ((\<exists>r. compute_burn_rate cfg db sid w now = Inr r)
            \<longleftrightarrow> datetime_minus now (of_int w * 60) = Inr (now - of_int w * 60)
                \<and> window_sums_in_range db sid (now - of_int w * 60) now))
   \<and> (sid \<in> svc_id ` set (services db)
        \<and> datetime_minus now (of_int w * 60) = Inr (now - of_int w * 60)
        \<and> window_rows db sid (now - of_int w * 60) now = []
      \<longrightarrow> (\<exists>r. compute_burn_rate cfg db sid w now = Inr r
                \<and> brc_burn_rate r = 0 \<and> brc_current_error_rate r = 0
                \<and> brc_error_budget_consumed r = 0 \<and> brc_error_budget_remaining r = 100
                \<and> brc_risk_level r = classify_risk cfg 0 0))
   \<and> (classify_risk cfg 0 0 = SAFE
        \<longleftrightarrow> 0 < BURN_RATE_OBSERVE_THRESHOLD cfg \<and> 0 < BURN_RATE_DANGER_THRESHOLD cfg
            \<and> 0 < BURN_RATE_FREEZE_THRESHOLD cfg \<and> 0 < ERROR_BUDGET_OBSERVE_THRESHOLD cfg
            \<and> 0 < ERROR_BUDGET_DANGER_THRESHOLD cfg \<and> 0 < ERROR_BUDGET_FREEZE_THRESHOLD cfg)"
proof (intro conjI impI)
  show "(\<exists>msg. compute_burn_rate cfg db sid w now = Inl (ValueError msg))
          \<longleftrightarrow> sid \<notin> svc_id ` set (services db)"
  proof (cases "find (\<lambda>s. svc_id s = sid) (services db)")
    case None
    then show ?thesis using find_service_None [of sid db] by (simp add: compute_burn_rate_def)
  next
    case (Some s)
    then have "\<not> (\<exists>msg. compute_burn_rate cfg db sid w now = Inl (ValueError msg))"
      by (cases "datetime_minus now (of_int w * 60)")
         (auto simp: compute_burn_rate_def Let_def dest: datetime_minus_error)
    with Some show ?thesis using find_service_None [of sid db] by simp
  qed
next
  assume "sid \<in> svc_id ` set (services db)"
  then obtain s where s: "find (\<lambda>s. svc_id s = sid) (services db) = Some s"
    by (rule find_service_Some)
  show "compute_burn_rate cfg db sid w now = Inl OverflowError
          \<longleftrightarrow> datetime_minus now (of_int w * 60) = Inl OverflowError"
    by (cases "datetime_minus now (of_int w * 60)")
       (simp_all add: compute_burn_rate_def s Let_def)
  show "compute_burn_rate cfg db sid w now = Inl DatabaseError
          \<longleftrightarrow> datetime_minus now (of_int w * 60) = Inr (now - of_int w * 60)
              \<and> \<not> window_sums_in_range db sid (now - of_int w * 60) now"
  proof (cases "datetime_minus now (of_int w * 60)")
    case (Inl e)
    with datetime_minus_error [OF Inl] show ?thesis
      by (simp add: compute_burn_rate_def s Let_def)
  next
    case (Inr ws)
    with datetime_minus_Inr [OF Inr] show ?thesis
      by (simp add: compute_burn_rate_def s Let_def)
  qed
  show "(\<exists>r. compute_burn_rate cfg db sid w now = Inr r)
          \<longleftrightarrow> datetime_minus now (of_int w * 60) = Inr (now - of_int w * 60)
              \<and> window_sums_in_range db sid (now - of_int w * 60) now"
  proof (cases "datetime_minus now (of_int w * 60)")
    case (Inl e)
    then show ?thesis by (simp add: compute_burn_rate_def s Let_def)
  next
    case (Inr ws)
    with datetime_minus_Inr [OF Inr] show ?thesis
      by (simp add: compute_burn_rate_def s Let_def)
  qed
next
  assume a: "sid \<in> svc_id ` set (services db)
        \<and> datetime_minus now (of_int w * 60) = Inr (now - of_int w * 60)
        \<and> window_rows db sid (now - of_int w * 60) now = []"
  then obtain s where s: "find (\<lambda>s. svc_id s = sid) (services db) = Some s"
    using find_service_Some [of sid db] by blast
  from a have ws: "datetime_minus now (of_int w * 60) = Inr (now - of_int w * 60)" by simp
  from a have t: "window_totals db sid (now - of_int w * 60) now = (None, None)"
    by (simp add: window_totals_def sql_sum_def)
  from a have ok: "window_sums_in_range db sid (now - of_int w * 60) now"
    by (simp add: window_sums_in_range_def)
  show "\<exists>r. compute_burn_rate cfg db sid w now = Inr r
                \<and> brc_burn_rate r = 0 \<and> brc_current_error_rate r = 0
                \<and> brc_error_budget_consumed r = 0 \<and> brc_error_budget_remaining r = 100
                \<and> brc_risk_level r = classify_risk cfg 0 0"
    unfolding compute_burn_rate_def s
    by (simp add: Let_def ws ok t py_round_zero py_round_100)
next
  show "classify_risk cfg 0 0 = SAFE
        \<longleftrightarrow> 0 < BURN_RATE_OBSERVE_THRESHOLD cfg \<and> 0 < BURN_RATE_DANGER_THRESHOLD cfg
            \<and> 0 < BURN_RATE_FREEZE_THRESHOLD cfg \<and> 0 < ERROR_BUDGET_OBSERVE_THRESHOLD cfg
            \<and> 0 < ERROR_BUDGET_DANGER_THRESHOLD cfg \<and> 0 < ERROR_BUDGET_FREEZE_THRESHOLD cfg"
    by (rule classify_risk_zero)
qed

theorem compute_burn_rate_errors_witness:
  "(\<exists>msg. compute_burn_rate default_settings idle_db 2 60 1800 = Inl (ValueError msg))
   \<and> 2 \<notin> svc_id ` set (services idle_db)
   \<and> 1 \<in> svc_id ` set (services idle_db)
   \<and> datetime_minus 1800 (of_int 2000000000 * 60) = Inl OverflowError
   \<and> compute_burn_rate default_settings idle_db 1 2000000000 1800 = Inl OverflowError
   \<and> datetime_minus 1800 (of_int 60 * 60) = Inr (1800 - of_int 60 * 60)
   \<and> 1 \<in> svc_id ` set (services overflow_db)
   \<and> \<not> window_sums_in_range overflow_db 1 (1800 - of_int 60 * 60) 1800
   \<and> compute_burn_rate default_settings overflow_db 1 60 1800 = Inl DatabaseError
   \<and> window_rows idle_db 1 (1800 - of_int 60 * 60) 1800 = []
   \<and> (\<exists>r. compute_burn_rate default_settings idle_db 1 60 1800 = Inr r
                \<and> brc_burn_rate r = 0 \<and> brc_current_error_rate r = 0
                \<and> brc_error_budget_consumed r = 0 \<and> brc_error_budget_remaining r = 100
                \<and> brc_risk_level r = classify_risk default_settings 0 0)
   \<and> classify_risk default_settings 0 0 = SAFE"
proof -
  note a = idle_db_services
  have b: "window_rows idle_db 1 (1800 - of_int 60 * 60) 1800 = []" by (rule idle_db_rows)
  have m: "datetime_minus 1800 (of_int 60 * 60) = Inr (1800 - of_int 60 * 60)"
    by (simp add: datetime_minus_eval)
  have o: "datetime_minus 1800 (of_int 2000000000 * 60) = Inl OverflowError"
    by (simp add: datetime_minus_overflow)
  have p: "0 < BURN_RATE_OBSERVE_THRESHOLD default_settings
            \<and> 0 < BURN_RATE_DANGER_THRESHOLD default_settings
            \<and> 0 < BURN_RATE_FREEZE_THRESHOLD default_settings
            \<and> 0 < ERROR_BUDGET_OBSERVE_THRESHOLD default_settings
            \<and> 0 < ERROR_BUDGET_DANGER_THRESHOLD default_settings
            \<and> 0 < ERROR_BUDGET_FREEZE_THRESHOLD default_settings"
    by (simp add: default_settings_def)
  from compute_burn_rate_errors [of default_settings idle_db 2 60 1800] a
  have c: "\<exists>msg. compute_burn_rate default_settings idle_db 2 60 1800 = Inl (ValueError msg)"
    by blast
  from compute_burn_rate_errors [of default_settings idle_db 1 2000000000 1800] a o
  have d: "compute_burn_rate default_settings idle_db 1 2000000000 1800 = Inl OverflowError"
    by blast
  from compute_burn_rate_errors [of default_settings overflow_db 1 60 1800] overflow_db_sums m
  have g: "compute_burn_rate default_settings overflow_db 1 60 1800 = Inl DatabaseError"
    by blast
  from compute_burn_rate_errors [of default_settings idle_db 1 60 1800] a b m
  have e: "\<exists>r. compute_burn_rate default_settings idle_db 1 60 1800 = Inr r
                \<and> brc_burn_rate r = 0 \<and> brc_current_error_rate r = 0
                \<and> brc_error_budget_consumed r = 0 \<and> brc_error_budget_remaining r = 100
                \<and> brc_risk_level r = classify_risk default_settings 0 0" by blast
  from compute_burn_rate_errors [of default_settings idle_db 1 60 1800] p
  have f: "classify_risk default_settings 0 0 = SAFE" by blast
  from a b m o c d e f g overflow_db_sums show ?thesis by blast
qed

section \<open>Forecast\<close>

lemma trend_db_service: "find (\<lambda>s. svc_id s = 1) (services trend_db) = Some api_service"
  by (simp add: trend_db_def idle_db_def empty_db_def api_service_def)

lemma trend_db_target: "availability_target trend_db 1 = None"
  by (simp add: availability_target_def trend_db_def idle_db_def empty_db_def)

lemma trend_db_rows: "window_rows trend_db 1 3600 7200 = [metric_row 7000 600000 120]"
  by (simp add: window_rows_def trend_db_def idle_db_def empty_db_def metric_row_def)

lemma trend_db_totals: "window_totals trend_db 1 3600 7200 = (Some 600000, Some 120)"
  by (simp add: window_totals_def trend_db_rows metric_row_def sql_sum_def)

lemma trend_db_sums: "window_sums_in_range trend_db 1 3600 7200"
  by (simp add: window_sums_in_range_def trend_db_rows metric_row_def)

lemma trend_db_burn:
  "compute_burn_rate default_settings trend_db 1 60 7200 = Inr (healthy_burn\<lparr>brc_timestamp := 7200\<rparr>)"
  by (simp add: compute_burn_rate_def trend_db_service trend_db_target trend_db_totals
      trend_db_sums datetime_minus_eval Let_def classify_risk_def default_settings_def
      py_round_eval healthy_burn_def api_service_def)

lemma trend_db_history:
  "trend_history trend_db 1 7200 = rising_history"
  by (simp add: trend_history_def trend_db_def idle_db_def empty_db_def history_row_def
      rising_history_def)

lemma small_regression:
  "regression rising_history = small_trend"
  by (simp add: regression_def Let_def history_row_def small_trend_def power2_eq_square
      rising_history_def)

lemma length_rising_history: "length rising_history = 3"
  by (simp add: rising_history_def)

lemma small_trend_eval: "calculate_trend trend_db 1 7200 = Some small_trend"
  by (simp add: calculate_trend_def trend_db_history small_regression length_rising_history)

lemma datetime_plus_eval:
  "datetime_plus 7200 8294400 = Inr 8301600"
  "datetime_plus 7200 10368000 = Inr 10375200"
  "datetime_plus 7200 185148 = Inr 192348"
  "datetime_plus 0 185148 = Inr 185148"
  "datetime_plus 1800 10368000 = Inr 10369800"
  "datetime_plus 7200 259200000000 = Inl OverflowError"
  by (simp_all add: datetime_plus_def timedelta_def datetime_add_def datetime_min_def
      datetime_max_def)

lemma exhaustion_eval:
  "exhaustion (1 / 4) 80 720 7200 = Inr (Some 2304, Some 8301600)"
  "exhaustion (1 / 5) 80 720 7200 = Inr (Some 2880, Some 10375200)"
  "exhaustion 7 50 720 7200 = Inr (Some (5143 / 100), Some 192348)"
  "exhaustion 7 50 720 0 = Inr (Some (5143 / 100), Some 185148)"
  "exhaustion 0 50 720 7200 = Inr (None, None)"
  "exhaustion 1 0 720 7200 = Inr (Some 0, Some 7200)"
  by (simp_all add: exhaustion_def py_round_eval Let_def datetime_plus_eval)

lemma trend_forecast_eval:
  "forecast_exhaustion default_settings trend_db 1 True 7200 = Inr trend_forecast"
  by (simp add: forecast_exhaustion_def trend_db_service trend_db_burn trend_db_target
      small_trend_eval Let_def trend_adjustment_def small_trend_def exhaustion_eval
      healthy_burn_def py_round_eval trend_forecast_def api_service_def)

lemma calculate_trend_direction:
  assumes "calculate_trend db sid now = Some td"
  shows "direction td = (if slope td > 0.1 then ''increasing''
                         else if slope td < - 0.1 then ''decreasing'' else ''stable'')"
proof -
  from assms have "td = regression (trend_history db sid now)"
    by (simp add: calculate_trend_def Let_def split: if_splits)
  then show ?thesis by (simp add: regression_def Let_def)
qed

text \<open>
  A returned forecast reports the two results of lines 90 to 110, computed from the
  trend-adjusted burn rate, the remaining budget of the 60-minute computation and the
  window of the availability target.
\<close>

lemma forecast_exhaustion_hours:
  assumes "forecast_exhaustion cfg db sid use now = Inr f"
  shows "exhaustion
           (fst (trend_adjustment (fr_current_burn_rate f) use
                   (if use then calculate_trend db sid now else None)))
           (fr_error_budget_remaining f)
           (of_int ((case availability_target db sid of None \<Rightarrow> 30
                     | Some t \<Rightarrow> slo_window_days t) * 24))
           now
         = Inr (fr_time_to_exhaustion_hours f, fr_projected_exhaustion_time f)"
proof (cases "find (\<lambda>s. svc_id s = sid) (services db)")
  case None
  with assms show ?thesis by (simp add: forecast_exhaustion_def)
next
  case (Some s)
  show ?thesis
  proof (cases "compute_burn_rate cfg db sid 60 now")
    case (Inl e)
    with assms Some show ?thesis by (simp add: forecast_exhaustion_def)
  next
    case b: (Inr b)
    let ?W = "of_int ((case availability_target db sid of None \<Rightarrow> 30
                       | Some t \<Rightarrow> slo_window_days t) * 24) :: real"
    obtain B' d sl c where
      ta: "trend_adjustment (brc_burn_rate b) use
             (if use then calculate_trend db sid now else None) = (B', d, sl, c)"
      by (cases "trend_adjustment (brc_burn_rate b) use
                   (if use then calculate_trend db sid now else None)") auto
    show ?thesis
    proof (cases "exhaustion B' (brc_error_budget_remaining b) ?W now")
      case (Inl e)
      with assms Some b ta show ?thesis by (simp add: forecast_exhaustion_def Let_def)
    next
      case (Inr p)
      obtain tte et where p: "p = (tte, et)" by (cases p) auto
      from assms Some b ta Inr p
      have v: "fr_current_burn_rate f = brc_burn_rate b
        \<and> fr_error_budget_remaining f = brc_error_budget_remaining b
        \<and> fr_time_to_exhaustion_hours f = tte \<and> fr_projected_exhaustion_time f = et"
        by (auto simp: forecast_exhaustion_def Let_def)
      with ta Inr p show ?thesis by simp
    qed
  qed
qed

lemma exhaustion_error:
  assumes "exhaustion B R W now = Inl e"
  shows "e = OverflowError \<and> 0 < B \<and> 0 < R
         \<and> datetime_plus now (py_round ((R / 100) * W / B) 2 * 3600) = Inl OverflowError"
proof -
  from assms have p: "0 < B \<and> 0 < R" and q: "py_round ((R / 100) * W / B) 2 > 0"
    by (auto simp: exhaustion_def Let_def split: if_splits)
  from assms p q obtain e' where
    e': "datetime_plus now (py_round ((R / 100) * W / B) 2 * 3600) = Inl e'" and "e' = e"
    by (cases "datetime_plus now (py_round ((R / 100) * W / B) 2 * 3600)")
       (auto simp: exhaustion_def Let_def)
  with datetime_plus_error [OF e'] p show ?thesis by simp
qed

lemma exhaustion_returned:
  assumes "exhaustion B R W now = Inr (tte, et)"
  shows "(0 < B \<and> 0 < R \<longrightarrow> tte = Some (py_round ((R / 100) * W / B) 2))
         \<and> (B \<le> 0 \<and> 0 < R \<longrightarrow> tte = None) \<and> (R \<le> 0 \<longrightarrow> tte = Some 0)"
proof (cases "0 < B \<and> 0 < R")
  case True
  with assms have "tte = Some (py_round ((R / 100) * W / B) 2)"
    by (cases "datetime_plus now (py_round ((R / 100) * W / B) 2 * 3600)")
       (auto simp: exhaustion_def Let_def split: if_splits)
  with True show ?thesis by simp
next
  case False
  with assms show ?thesis by (auto simp: exhaustion_def split: if_splits)
qed

lemma exhaustion_180:
  assumes "datetime_min \<le> now + 648000 \<and> now + 648000 \<le> datetime_max"
  shows "exhaustion 2 50 720 now = Inr (Some 180, Some (now + 648000))"
  using assms
  by (simp add: exhaustion_def py_round_eval Let_def datetime_plus_def timedelta_def
      datetime_add_def)

lemma py_round_eval3: "py_round 72000000 2 = 72000000"
  by (simp add: py_round_def round_half_even_def Let_def frac_def)

lemma exhaustion_overflow: "exhaustion (1 / 100000) 100 720 7200 = Inl OverflowError"
  by (simp add: exhaustion_def py_round_eval3 Let_def datetime_plus_eval)

text \<open>
  C7, as the claim states it, fails: the code rounds the quotient to two decimals, so
  with burn rate 7, 50 percent remaining and a 720-hour window the forecast is 51.43 hours,
  not 360/7.
\<close>

theorem exhaustion_formula_counterexample:
  "exhaustion 7 50 720 0 = Inr (Some (5143 / 100), Some 185148)
   \<and> Some (5143 / 100 :: real) \<noteq> Some ((50 / 100) * 720 / 7)"
  by (simp add: exhaustion_eval)

text \<open>
  C7, amended. Take burn rate \<open>B\<close>, remaining budget \<open>R\<close> percent and window \<open>W\<close> hours.
  Whenever lines 90 to 110 return, the hours to exhaustion are \<open>(R / 100) * W / B\<close>
  rounded to two decimals (at most 0.005 away from the quotient) when \<open>B > 0\<close> and
  \<open>R > 0\<close>; they are undefined when \<open>B \<le> 0\<close> and \<open>R > 0\<close>, and 0 when \<open>R \<le> 0\<close>. The lines
  fail only with \<open>OverflowError\<close>, only for \<open>B > 0\<close> and \<open>R > 0\<close>, and only when the
  clock reading plus the rounded hours is not a \<open>datetime\<close>. With \<open>B = 2\<close>, \<open>R = 50\<close>,
  \<open>W = 720\<close> every returned result is 180 hours, and the result is returned whenever
  the clock reading plus 180 hours is a \<open>datetime\<close>. A returned forecast reports the
  value so computed from the trend-adjusted burn rate, the remaining budget of the
  60-minute computation and the window of the availability target.
\<close>

theorem exhaustion_formula_rounded:
  "(exhaustion B R W now = Inr (tte, et) \<longrightarrow>
      (0 < B \<and> 0 < R \<longrightarrow>
         tte = Some (py_round ((R / 100) * W / B) 2)
         \<and> \<bar>py_round ((R / 100) * W / B) 2 - (R / 100) * W / B\<bar> \<le> 1 / 200)
      \<and> (B \<le> 0 \<and> 0 < R \<longrightarrow> tte = None)
      \<and> (R \<le> 0 \<longrightarrow> tte = Some 0))
   \<and> (exhaustion B R W now = Inl e \<longrightarrow>
        e = OverflowError \<and> 0 < B \<and> 0 < R
        \<and> datetime_plus now (py_round ((R / 100) * W / B) 2 * 3600) = Inl OverflowError)
   \<and> (exhaustion 2 50 720 now = Inr (tte, et) \<longrightarrow> tte = Some 180)
   \<and> (datetime_min \<le> now + 648000 \<and> now + 648000 \<le> datetime_max \<longrightarrow>
        exhaustion 2 50 720 now = Inr (Some 180, Some (now + 648000)))
   \<and> (forecast_exhaustion cfg db sid use now = Inr f \<longrightarrow>
        exhaustion
          (fst (trend_adjustment (fr_current_burn_rate f) use
                  (if use then calculate_trend db sid now else None)))
          (fr_error_budget_remaining f)
          (of_int ((case availability_target db sid of None \<Rightarrow> 30
                    | Some t \<Rightarrow> slo_window_days t) * 24))
          now
        = Inr (fr_time_to_exhaustion_hours f, fr_projected_exhaustion_time f))"
proof (intro conjI impI)
  assume a: "exhaustion B R W now = Inr (tte, et)"
  {
    assume "0 < B \<and> 0 < R"
    with exhaustion_returned [OF a]
    show "tte = Some (py_round ((R / 100) * W / B) 2)" by simp
    show "\<bar>py_round ((R / 100) * W / B) 2 - (R / 100) * W / B\<bar> \<le> 1 / 200"
      using py_round_close [of "(R / 100) * W / B" 2] by simp
  }
  {
    assume "B \<le> 0 \<and> 0 < R"
    with exhaustion_returned [OF a] show "tte = None" by simp
  }
  {
    assume "R \<le> 0"
    with exhaustion_returned [OF a] show "tte = Some 0" by simp
  }
next
  assume a: "exhaustion B R W now = Inl e"
  from exhaustion_error [OF a]
  show "e = OverflowError" "0 < B" "0 < R"
    "datetime_plus now (py_round ((R / 100) * W / B) 2 * 3600) = Inl OverflowError"
    by simp_all
next
  assume a: "exhaustion 2 50 720 now = Inr (tte, et)"
  from exhaustion_returned [OF a] show "tte = Some 180" by (simp add: py_round_eval)
next
  assume "datetime_min \<le> now + 648000 \<and> now + 648000 \<le> datetime_max"
  then show "exhaustion 2 50 720 now = Inr (Some 180, Some (now + 648000))"
    by (rule exhaustion_180)
next
  assume "forecast_exhaustion cfg db sid use now = Inr f"
  then show "exhaustion
          (fst (trend_adjustment (fr_current_burn_rate f) use
                  (if use then calculate_trend db sid now else None)))
          (fr_error_budget_remaining f)
          (of_int ((case availability_target db sid of None \<Rightarrow> 30
                    | Some t \<Rightarrow> slo_window_days t) * 24))
          now
        = Inr (fr_time_to_exhaustion_hours f, fr_projected_exhaustion_time f)"
    by (rule forecast_exhaustion_hours)
qed

theorem exhaustion_formula_rounded_witness:
  "(0::real) < 7 \<and> (0::real) < 50
   \<and> exhaustion 7 50 720 7200 = Inr (Some (5143 / 100), Some 192348)
   \<and> Some (5143 / 100) = Some (py_round ((50 / 100) * 720 / 7) 2)
   \<and> \<bar>py_round ((50 / 100) * 720 / 7) 2 - (50 / 100) * 720 / 7\<bar> \<le> 1 / 200
   \<and> exhaustion 0 50 720 7200 = Inr (None, None)
   \<and> exhaustion 1 0 720 7200 = Inr (Some 0, Some 7200)
   \<and> exhaustion (1 / 100000) 100 720 7200 = Inl OverflowError
   \<and> datetime_plus 7200 (py_round ((100 / 100) * 720 / (1 / 100000)) 2 * 3600)
       = Inl OverflowError
   \<and> datetime_min \<le> 7200 + 648000 \<and> 7200 + 648000 \<le> datetime_max
   \<and> exhaustion 2 50 720 7200 = Inr (Some 180, Some (7200 + 648000))
   \<and> forecast_exhaustion default_settings trend_db 1 True 7200 = Inr trend_forecast
   \<and> exhaustion (fst (trend_adjustment (1 / 5) True (Some small_trend))) 80 720 7200
       = Inr (Some 2304, Some 8301600)"
proof -
  have r: "datetime_min \<le> 7200 + 648000 \<and> 7200 + 648000 \<le> datetime_max"
    by (simp add: datetime_min_def datetime_max_def)
  from exhaustion_formula_rounded [where B = 7 and R = 50 and W = 720 and now = 7200
      and tte = "Some (5143 / 100)" and et = "Some 192348"] exhaustion_eval(3)
  have a: "Some (5143 / 100) = Some (py_round ((50 / 100) * 720 / 7) 2)
           \<and> \<bar>py_round ((50 / 100) * 720 / 7) 2 - (50 / 100) * 720 / 7\<bar> \<le> 1 / 200"
    by simp
  from exhaustion_formula_rounded [where B = "1 / 100000" and R = 100 and W = 720
      and now = 7200 and e = OverflowError] exhaustion_overflow
  have b: "datetime_plus 7200 (py_round ((100 / 100) * 720 / (1 / 100000)) 2 * 3600)
             = Inl OverflowError"
    by simp
  from exhaustion_formula_rounded [where now = 7200] r
  have c: "exhaustion 2 50 720 7200 = Inr (Some 180, Some (7200 + 648000))" by blast
  from exhaustion_formula_rounded [where cfg = default_settings and db = trend_db and sid = 1
      and use = True and now = 7200 and f = trend_forecast] trend_forecast_eval
  have "exhaustion
          (fst (trend_adjustment (fr_current_burn_rate trend_forecast) True
                  (if True then calculate_trend trend_db 1 7200 else None)))
          (fr_error_budget_remaining trend_forecast)
          (of_int ((case availability_target trend_db 1 of None \<Rightarrow> 30
                    | Some t \<Rightarrow> slo_window_days t) * 24))
          7200
        = Inr (fr_time_to_exhaustion_hours trend_forecast,
               fr_projected_exhaustion_time trend_forecast)"
    by blast
  then have d: "exhaustion (fst (trend_adjustment (1 / 5) True (Some small_trend))) 80 720 7200
       = Inr (Some 2304, Some 8301600)"
    by (simp add: small_trend_eval trend_db_target trend_forecast_def)
  from r a b c d exhaustion_eval exhaustion_overflow trend_forecast_eval
  show ?thesis by simp
qed

text \<open>
  C6, as the claim states it, fails: a history rising by 0.05 per hour has direction
  \<open>stable\<close>, and the forecast still uses the burn rate 0.2 + 0.05.
\<close>

theorem trend_projection_counterexample:
  "forecast_exhaustion default_settings trend_db 1 True 7200 = Inr trend_forecast
   \<and> calculate_trend trend_db 1 7200 = Some small_trend
   \<and> direction small_trend = ''stable''
   \<and> slope small_trend = 1 / 20
   \<and> fr_current_burn_rate trend_forecast = 1 / 5
   \<and> exhaustion (1 / 5 + 1 / 20) 80 720 7200
       = Inr (fr_time_to_exhaustion_hours trend_forecast,
              fr_projected_exhaustion_time trend_forecast)
   \<and> exhaustion (1 / 5) 80 720 7200 = Inr (Some 2880, Some 10375200)
   \<and> fr_time_to_exhaustion_hours trend_forecast \<noteq> Some 2880"
  using trend_forecast_eval small_trend_eval
  by (simp add: trend_forecast_def small_trend_def exhaustion_eval)

text \<open>
  C6, amended. In \<open>forecast_exhaustion\<close> with the historical trend, the exhaustion
  formula is applied to \<open>B + m\<close> exactly when a trend exists and its slope \<open>m\<close> is
  positive, and to the current burn rate \<open>B\<close> otherwise; the direction is
  \<open>increasing\<close> exactly when \<open>m > 0.1\<close>, so every increasing trend uses \<open>B + m\<close>.
\<close>

theorem trend_projection_by_slope:
  assumes "forecast_exhaustion cfg db sid True now = Inr f"
  shows "\<exists>B'. exhaustion B' (fr_error_budget_remaining f)
                 (of_int ((case availability_target db sid of None \<Rightarrow> 30
                           | Some t \<Rightarrow> slo_window_days t) * 24)) now
               = Inr (fr_time_to_exhaustion_hours f, fr_projected_exhaustion_time f)
          \<and> (case calculate_trend db sid now of
                None \<Rightarrow> B' = fr_current_burn_rate f
              | Some td \<Rightarrow>
                  B' = (if slope td > 0 then fr_current_burn_rate f + slope td
                        else fr_current_burn_rate f)
                  \<and> (direction td = ''increasing'' \<longleftrightarrow> slope td > 0.1)
                  \<and> (direction td = ''increasing'' \<longrightarrow> B' = fr_current_burn_rate f + slope td))"
proof -
  let ?B = "fst (trend_adjustment (fr_current_burn_rate f) True (calculate_trend db sid now))"
  have h: "exhaustion ?B (fr_error_budget_remaining f)
                 (of_int ((case availability_target db sid of None \<Rightarrow> 30
                           | Some t \<Rightarrow> slo_window_days t) * 24)) now
               = Inr (fr_time_to_exhaustion_hours f, fr_projected_exhaustion_time f)"
    using forecast_exhaustion_hours [OF assms] by simp
  have c: "case calculate_trend db sid now of
                None \<Rightarrow> ?B = fr_current_burn_rate f
              | Some td \<Rightarrow>
                  ?B = (if slope td > 0 then fr_current_burn_rate f + slope td
                        else fr_current_burn_rate f)
                  \<and> (direction td = ''increasing'' \<longleftrightarrow> slope td > 0.1)
                  \<and> (direction td = ''increasing'' \<longrightarrow> ?B = fr_current_burn_rate f + slope td)"
  proof (cases "calculate_trend db sid now")
    case None
    then show ?thesis by (simp add: trend_adjustment_def)
  next
    case (Some td)
    from calculate_trend_direction [OF Some]
    have d: "direction td = ''increasing'' \<longleftrightarrow> slope td > 0.1" by simp
    show ?thesis unfolding Some using d by (simp add: trend_adjustment_def)
  qed
  show ?thesis by (rule exI [of _ ?B]) (rule conjI [OF h c])
qed

theorem trend_projection_by_slope_witness:
  "forecast_exhaustion default_settings trend_db 1 True 7200 = Inr trend_forecast
   \<and> (\<exists>B'. exhaustion B' 80 720 7200
              = Inr (fr_time_to_exhaustion_hours trend_forecast,
                     fr_projected_exhaustion_time trend_forecast)
          \<and> B' = 1 / 5 + 1 / 20)"
proof -
  from trend_projection_by_slope [OF trend_forecast_eval] small_trend_eval trend_db_target
    trend_forecast_eval
  show ?thesis by (simp add: trend_forecast_def small_trend_def)
qed

section \<open>Release gate\<close>

lemma evaluate_gate_override:
  assumes "risk = FREEZE \<or> risk = DANGER" "ov" "truthy reason"
  shows "fst (evaluate_gate cfg wb risk br tte ov reason)
         \<and> prefix ''OVERRIDE:'' (fst (snd (evaluate_gate cfg wb risk br tte ov reason)))"
  using assms by (auto simp: evaluate_gate_def Let_def)

lemma evaluate_gate_block:
  assumes "risk = FREEZE \<or> risk = DANGER" "\<not> (ov \<and> truthy reason)"
  shows "\<not> fst (evaluate_gate cfg wb risk br tte ov reason)"
  using assms by (auto simp: evaluate_gate_def Let_def)

lemma evaluate_gate_burn_rate:
  assumes "risk \<noteq> FREEZE" "risk \<noteq> DANGER" "wb > RELEASE_GATE_BURN_RATE_THRESHOLD cfg"
  shows "\<not> fst (evaluate_gate cfg wb risk br tte ov reason)"
  using assms by (simp add: evaluate_gate_def)

lemma uuid_str_nonempty: "uuid_str u \<noteq> []"
  by (simp add: uuid_str_def Let_def)

lemma record_deployment_Inr:
  assumes "record_deployment db sid did ver by allowed reason risk wb now rnd = Inr db'"
  shows "\<exists>d. db' = db\<lparr>deployments := deployments db @ [d]\<rparr>
           \<and> dep_service_id d = sid
           \<and> dep_deployment_id d = (if did = [] then uuid_str (uuid4 rnd) else did)
           \<and> dep_deployment_id d \<notin> set (map dep_deployment_id (deployments db))
           \<and> dep_allowed d = allowed
           \<and> dep_blocked_reason d = (if allowed then None else Some reason)
           \<and> dep_status d = (if allowed then ''approved'' else ''rejected'')
           \<and> dep_risk_level_at_request d = Some risk
           \<and> dep_burn_rate_at_request d = Some wb"
  using assms unfolding record_deployment_def Let_def
  by (auto split: if_splits)

lemma check_release_unknown:
  assumes "find (\<lambda>s. svc_name s = req_service_name req) (services db) = None"
  shows "\<exists>resp. check_release cfg db req now rnd = Inr (resp, db) \<and> \<not> resp_allowed resp
           \<and> resp_current_risk_level resp = FREEZE \<and> resp_deployment_id resp = req_deployment_id req"
  using assms by (simp add: check_release_def)

lemma check_release_known:
  assumes s: "find (\<lambda>s. svc_name s = req_service_name req) (services db) = Some s"
      and r: "check_release cfg db req now rnd = Inr (resp, db')"
  shows "\<exists>bc wb risk fc.
           compute_burn_rate cfg db (svc_id s) 60 now = Inr bc
           \<and> get_weighted_burn_rate cfg db (svc_id s) now = Inr (wb, risk)
           \<and> forecast_exhaustion cfg db (svc_id s) True now = Inr fc
           \<and> evaluate_gate cfg wb risk (brc_error_budget_remaining bc)
                (fr_time_to_exhaustion_hours fc) (req_override req) (req_override_reason req)
               = (resp_allowed resp, resp_reason resp, resp_recommendations resp)
           \<and> record_deployment db (svc_id s) (req_deployment_id req) (req_version req)
                (req_requested_by req) (resp_allowed resp) (resp_reason resp) risk wb now rnd = Inr db'
           \<and> resp_deployment_id resp = req_deployment_id req
           \<and> resp_current_risk_level resp = risk
           \<and> resp_current_burn_rate resp = wb"
proof (cases "compute_burn_rate cfg db (svc_id s) 60 now")
  case (Inl e)
  with s r show ?thesis by (simp add: check_release_def)
next
  case bc: (Inr bc)
  show ?thesis
  proof (cases "get_weighted_burn_rate cfg db (svc_id s) now")
    case (Inl e)
    with s r bc show ?thesis by (simp add: check_release_def)
  next
    case w: (Inr p)
    obtain wb risk where p: "p = (wb, risk)" by (cases p)
    show ?thesis
    proof (cases "forecast_exhaustion cfg db (svc_id s) True now")
      case (Inl e)
      with s r bc w p show ?thesis by (simp add: check_release_def)
    next
      case fc: (Inr fc)
      obtain allowed reason recs where g:
        "evaluate_gate cfg wb risk (brc_error_budget_remaining bc)
           (fr_time_to_exhaustion_hours fc) (req_override req) (req_override_reason req)
         = (allowed, reason, recs)" by (cases "evaluate_gate cfg wb risk (brc_error_budget_remaining bc)
           (fr_time_to_exhaustion_hours fc) (req_override req) (req_override_reason req)")
      show ?thesis
      proof (cases "record_deployment db (svc_id s) (req_deployment_id req) (req_version req)
                (req_requested_by req) allowed reason risk wb now rnd")
        case (Inl e)
        with s r bc w p fc g show ?thesis by (simp add: check_release_def)
      next
        case rd: (Inr d)
        from s r bc w p fc g rd have e: "resp_allowed resp = allowed" "resp_reason resp = reason"
          "resp_recommendations resp = recs"
          "d = db'" "resp_deployment_id resp = req_deployment_id req"
          "resp_current_risk_level resp = risk" "resp_current_burn_rate resp = wb"
          by (auto simp: check_release_def)
        with bc w p fc g rd show ?thesis by simp
      qed
    qed
  qed
qed

lemma find_service_by_id:
  assumes "find (\<lambda>x. svc_name x = n) (services db) = Some s"
  shows "\<exists>s'. find (\<lambda>x. svc_id x = svc_id s) (services db) = Some s'"
proof -
  from assms have "s \<in> set (services db)" by (auto simp: find_Some_iff)
  then have "find (\<lambda>x. svc_id x = svc_id s) (services db) \<noteq> None"
    by (auto simp: find_None_iff)
  then show ?thesis by auto
qed

text \<open>
  A forecast is returned when the service is registered, the 60-minute computation
  returns and lines 90 to 110 return.
\<close>

lemma forecast_exhaustion_returns:
  assumes "find (\<lambda>x. svc_id x = sid) (services db) = Some s'"
      and "compute_burn_rate cfg db sid 60 now = Inr bc"
      and "exhaustion
             (fst (trend_adjustment (brc_burn_rate bc) use
                     (if use then calculate_trend db sid now else None)))
             (brc_error_budget_remaining bc)
             (of_int ((case availability_target db sid of None \<Rightarrow> 30
                       | Some t \<Rightarrow> slo_window_days t) * 24))
             now = Inr p"
  shows "\<exists>fc. forecast_exhaustion cfg db sid use now = Inr fc"
proof -
  obtain B' d sl c where
    ta: "trend_adjustment (brc_burn_rate bc) use
           (if use then calculate_trend db sid now else None) = (B', d, sl, c)"
    by (cases "trend_adjustment (brc_burn_rate bc) use
                 (if use then calculate_trend db sid now else None)") auto
  obtain tte et where p: "p = (tte, et)" by (cases p) auto
  from assms ta p show ?thesis by (simp add: forecast_exhaustion_def Let_def)
qed

text \<open>
  A check on a registered service returns whenever its three computations return and the
  deployment id is new.
\<close>

lemma check_release_returns:
  assumes s: "find (\<lambda>x. svc_name x = req_service_name req) (services db) = Some s"
      and fresh: "(if req_deployment_id req = [] then uuid_str (uuid4 rnd) else req_deployment_id req)
                    \<notin> set (map dep_deployment_id (deployments db))"
      and bc: "compute_burn_rate cfg db (svc_id s) 60 now = Inr bc"
      and w: "get_weighted_burn_rate cfg db (svc_id s) now = Inr (wb, risk)"
      and fc: "forecast_exhaustion cfg db (svc_id s) True now = Inr fc"
  shows "\<exists>resp db'. check_release cfg db req now rnd = Inr (resp, db')"
proof -
  obtain allowed reason recs where g:
    "evaluate_gate cfg wb risk (brc_error_budget_remaining bc)
       (fr_time_to_exhaustion_hours fc) (req_override req) (req_override_reason req)
     = (allowed, reason, recs)"
    by (cases "evaluate_gate cfg wb risk (brc_error_budget_remaining bc)
       (fr_time_to_exhaustion_hours fc) (req_override req) (req_override_reason req)")
  from fresh obtain d where rd:
    "record_deployment db (svc_id s) (req_deployment_id req) (req_version req)
       (req_requested_by req) allowed reason risk wb now rnd = Inr d"
    by (simp add: record_deployment_def Let_def)
  from s bc w fc g rd show ?thesis by (simp add: check_release_def)
qed

text \<open>
  C2. For a check on a registered service that returns a response: when the composite
  risk is FREEZE or DANGER and the request carries \<open>override\<close> with a non-empty
  \<open>override_reason\<close>, the decision is allowed and its reason starts with \<open>OVERRIDE:\<close>;
  when the override flag is off or the reason is missing or empty, FREEZE and DANGER
  block; and when the risk is neither and the weighted burn rate exceeds the release-gate
  threshold, the decision is blocked whatever the override fields are.
\<close>

theorem check_release_override:
  assumes "find (\<lambda>s. svc_name s = req_service_name req) (services db) = Some s"
      and "get_weighted_burn_rate cfg db (svc_id s) now = Inr (wb, risk)"
      and "check_release cfg db req now rnd = Inr (resp, db')"
  shows "((risk = FREEZE \<or> risk = DANGER) \<and> req_override req \<and> truthy (req_override_reason req)
            \<longrightarrow> resp_allowed resp \<and> prefix ''OVERRIDE:'' (resp_reason resp))
       \<and> ((risk = FREEZE \<or> risk = DANGER)
            \<and> \<not> (req_override req \<and> truthy (req_override_reason req))
            \<longrightarrow> \<not> resp_allowed resp)
       \<and> (risk \<noteq> FREEZE \<and> risk \<noteq> DANGER \<and> wb > RELEASE_GATE_BURN_RATE_THRESHOLD cfg
            \<longrightarrow> \<not> resp_allowed resp)"
proof -
  from check_release_known [OF assms(1) assms(3)]
  obtain bc :: BurnRateComputation and wb' risk' and fc :: ForecastResponse where
    w: "get_weighted_burn_rate cfg db (svc_id s) now = Inr (wb', risk')"
    and g': "evaluate_gate cfg wb' risk' (brc_error_budget_remaining bc)
                (fr_time_to_exhaustion_hours fc) (req_override req) (req_override_reason req)
               = (resp_allowed resp, resp_reason resp, resp_recommendations resp)"
    by blast
  from w assms(2) have e: "wb' = wb" "risk' = risk" by simp_all
  note g = g' [unfolded e]
  have a: "resp_allowed resp =
          fst (evaluate_gate cfg wb risk (brc_error_budget_remaining bc)
                 (fr_time_to_exhaustion_hours fc) (req_override req) (req_override_reason req))"
    and b: "resp_reason resp =
          fst (snd (evaluate_gate cfg wb risk (brc_error_budget_remaining bc)
                 (fr_time_to_exhaustion_hours fc) (req_override req) (req_override_reason req)))"
    by (simp_all add: g)
  show ?thesis unfolding a b
    using evaluate_gate_override [where risk = risk and ov = "req_override req"
            and reason = "req_override_reason req" and cfg = cfg and wb = wb
            and br = "brc_error_budget_remaining bc" and tte = "fr_time_to_exhaustion_hours fc"]
          evaluate_gate_block [where risk = risk and ov = "req_override req"
            and reason = "req_override_reason req" and cfg = cfg and wb = wb
            and br = "brc_error_budget_remaining bc" and tte = "fr_time_to_exhaustion_hours fc"]
          evaluate_gate_burn_rate [where risk = risk and ov = "req_override req"
            and reason = "req_override_reason req" and cfg = cfg and wb = wb
            and br = "brc_error_budget_remaining bc" and tte = "fr_time_to_exhaustion_hours fc"]
    by blast
qed

text \<open>
  C1, amended. A check whose service name matches no registered service returns a
  blocked response and leaves every table as it was. A check on a registered service
  that returns a response has appended exactly one Deployment row, whose \<open>allowed\<close> flag
  is the response's, whose status is \<open>approved\<close> if and only if the response is allowed
  and \<open>rejected\<close> otherwise, and whose \<open>blocked_reason\<close> is the decision reason when
  blocked and null when allowed.
\<close>

theorem check_release_records:
  "(find (\<lambda>s. svc_name s = req_service_name req) (services db) = None \<longrightarrow>
      (\<exists>resp. check_release cfg db req now rnd = Inr (resp, db) \<and> \<not> resp_allowed resp))
   \<and> (find (\<lambda>s. svc_name s = req_service_name req) (services db) = Some s
        \<and> check_release cfg db req now rnd = Inr (resp, db') \<longrightarrow>
      (\<exists>d. db' = db\<lparr>deployments := deployments db @ [d]\<rparr>
           \<and> dep_service_id d = svc_id s
           \<and> dep_allowed d = resp_allowed resp
           \<and> (dep_status d = ''approved'' \<longleftrightarrow> resp_allowed resp)
           \<and> (dep_status d = ''rejected'' \<longleftrightarrow> \<not> resp_allowed resp)
           \<and> dep_blocked_reason d = (if resp_allowed resp then None else Some (resp_reason resp))))"
proof (intro conjI impI)
  assume "find (\<lambda>s. svc_name s = req_service_name req) (services db) = None"
  from check_release_unknown [OF this]
  show "\<exists>resp. check_release cfg db req now rnd = Inr (resp, db) \<and> \<not> resp_allowed resp"
    by blast
next
  assume a: "find (\<lambda>s. svc_name s = req_service_name req) (services db) = Some s
        \<and> check_release cfg db req now rnd = Inr (resp, db')"
  then have a1: "find (\<lambda>s. svc_name s = req_service_name req) (services db) = Some s"
    and a2: "check_release cfg db req now rnd = Inr (resp, db')" by simp_all
  from check_release_known [OF a1 a2] obtain wb risk where
    "record_deployment db (svc_id s) (req_deployment_id req) (req_version req)
       (req_requested_by req) (resp_allowed resp) (resp_reason resp) risk wb now rnd = Inr db'"
    by blast
  from record_deployment_Inr [OF this] obtain d where
    d: "db' = db\<lparr>deployments := deployments db @ [d]\<rparr>" "dep_service_id d = svc_id s"
       "dep_allowed d = resp_allowed resp"
       "dep_blocked_reason d = (if resp_allowed resp then None else Some (resp_reason resp))"
       "dep_status d = (if resp_allowed resp then ''approved'' else ''rejected'')"
    by blast
  show "\<exists>d. db' = db\<lparr>deployments := deployments db @ [d]\<rparr>
           \<and> dep_service_id d = svc_id s
           \<and> dep_allowed d = resp_allowed resp
           \<and> (dep_status d = ''approved'' \<longleftrightarrow> resp_allowed resp)
           \<and> (dep_status d = ''rejected'' \<longleftrightarrow> \<not> resp_allowed resp)
           \<and> dep_blocked_reason d = (if resp_allowed resp then None else Some (resp_reason resp))"
    by (rule exI [of _ d]) (simp add: d)
qed

text \<open>
  C10. The Deployment row that a check on a registered service writes has a non-empty
  \<open>deployment_id\<close>: for an empty id in the request the row carries the string of a
  newly generated UUID, while the response repeats the request's empty id; a non-empty
  id is stored as it is.
\<close>

theorem deployment_id_nonempty:
  assumes "find (\<lambda>s. svc_name s = req_service_name req) (services db) = Some s"
      and "check_release cfg db req now rnd = Inr (resp, db')"
  shows "\<exists>d. db' = db\<lparr>deployments := deployments db @ [d]\<rparr>
           \<and> dep_deployment_id d \<noteq> []
           \<and> resp_deployment_id resp = req_deployment_id req
           \<and> (req_deployment_id req = [] \<longrightarrow>
                 dep_deployment_id d = uuid_str (uuid4 rnd) \<and> resp_deployment_id resp = [])
           \<and> (req_deployment_id req \<noteq> [] \<longrightarrow> dep_deployment_id d = req_deployment_id req)"
proof -
  from check_release_known [OF assms] obtain wb risk where
    r: "record_deployment db (svc_id s) (req_deployment_id req) (req_version req)
       (req_requested_by req) (resp_allowed resp) (resp_reason resp) risk wb now rnd = Inr db'"
    and i: "resp_deployment_id resp = req_deployment_id req"
    by blast
  from record_deployment_Inr [OF r] obtain d where
    d: "db' = db\<lparr>deployments := deployments db @ [d]\<rparr>"
       "dep_deployment_id d = (if req_deployment_id req = [] then uuid_str (uuid4 rnd)
                               else req_deployment_id req)"
    by blast
  show ?thesis by (rule exI [of _ d]) (simp add: d i uuid_str_nonempty)
qed

lemma burning_db_service:
  "find (\<lambda>s. svc_id s = 1) (services burning_db) = Some api_service"
  "find (\<lambda>s. svc_name s = ''api-gateway'') (services burning_db) = Some api_service"
  "deployments burning_db = []"
  by (simp_all add: burning_db_def idle_db_def empty_db_def api_service_def)

lemma burning_db_target: "availability_target burning_db 1 = None"
  by (simp add: availability_target_def burning_db_def idle_db_def empty_db_def)

lemma burning_db_rows:
  "window_rows burning_db 1 1500 1800 = []"
  "window_rows burning_db 1 (- 1800) 1800 = [metric_row 1000 600000 1500]"
  "window_rows burning_db 1 (- 84600) 1800 = [metric_row 1000 600000 1500]"
  by (simp_all add: window_rows_def burning_db_def idle_db_def empty_db_def metric_row_def)

lemma burning_db_totals:
  "window_totals burning_db 1 1500 1800 = (None, None)"
  "window_totals burning_db 1 (- 1800) 1800 = (Some 600000, Some 1500)"
  "window_totals burning_db 1 (- 84600) 1800 = (Some 600000, Some 1500)"
  by (simp_all add: window_totals_def burning_db_rows metric_row_def sql_sum_def)

lemma burning_db_sums:
  "window_sums_in_range burning_db 1 1500 1800"
  "window_sums_in_range burning_db 1 (- 1800) 1800"
  "window_sums_in_range burning_db 1 (- 84600) 1800"
  by (simp_all add: window_sums_in_range_def burning_db_rows metric_row_def)

lemma py_round_eval2:
  "py_round (5 / 2) 3 = 5 / 2" "py_round (7 / 4) 3 = 7 / 4" "py_round (1 / 400) 6 = 1 / 400"
  "py_round (7 / 50) 3 = 7 / 50"
  by (simp_all add: py_round_def round_half_even_def Let_def frac_def)

lemma burning_db_windows:
  "\<exists>c. compute_burn_rate default_settings burning_db 1 5 1800 = Inr c
        \<and> brc_burn_rate c = 0 \<and> brc_risk_level c = SAFE"
  "\<exists>c. compute_burn_rate default_settings burning_db 1 60 1800 = Inr c
        \<and> brc_burn_rate c = 5 / 2 \<and> brc_risk_level c = FREEZE"
  "\<exists>c. compute_burn_rate default_settings burning_db 1 1440 1800 = Inr c
        \<and> brc_burn_rate c = 5 / 2 \<and> brc_risk_level c = FREEZE"
  by (simp_all add: compute_burn_rate_def burning_db_service burning_db_target burning_db_totals
      burning_db_sums datetime_minus_eval Let_def classify_risk_def default_settings_def
      py_round_eval py_round_eval2 py_round_zero)

lemma burning_db_hour:
  "\<exists>c. compute_burn_rate default_settings burning_db 1 60 1800 = Inr c
        \<and> brc_burn_rate c = 5 / 2 \<and> brc_error_budget_remaining c = 0
        \<and> brc_risk_level c = FREEZE"
  by (simp add: compute_burn_rate_def burning_db_service burning_db_target burning_db_totals
      burning_db_sums datetime_minus_eval Let_def classify_risk_def default_settings_def
      py_round_eval py_round_eval2 py_round_zero)

lemma burning_db_weighted:
  "get_weighted_burn_rate default_settings burning_db 1 1800 = Inr (7 / 4, FREEZE)"
proof -
  from burning_db_windows obtain c5 c60 c1440 where
    c: "compute_burn_rate default_settings burning_db 1 5 1800 = Inr c5"
       "compute_burn_rate default_settings burning_db 1 60 1800 = Inr c60"
       "compute_burn_rate default_settings burning_db 1 1440 1800 = Inr c1440"
    and v: "brc_burn_rate c5 = 0" "brc_risk_level c5 = SAFE"
       "brc_burn_rate c60 = 5 / 2" "brc_risk_level c60 = FREEZE"
       "brc_burn_rate c1440 = 5 / 2" "brc_risk_level c1440 = FREEZE"
    by blast
  show ?thesis
    by (simp add: get_weighted_burn_rate_def compute_all_windows_def WINDOW_CONFIGS_def
        weighted_step_def Let_def c v py_round_eval2)
qed

lemma burning_db_trend: "calculate_trend burning_db 1 1800 = None"
  by (simp add: calculate_trend_def trend_history_def burning_db_def idle_db_def empty_db_def)

lemma burning_db_forecast:
  "\<exists>fc. forecast_exhaustion default_settings burning_db 1 True 1800 = Inr fc"
proof -
  from burning_db_hour obtain c where
    c: "compute_burn_rate default_settings burning_db 1 60 1800 = Inr c"
    and v: "brc_burn_rate c = 5 / 2" "brc_error_budget_remaining c = 0"
    by blast
  have "exhaustion
          (fst (trend_adjustment (brc_burn_rate c) True
                  (if True then calculate_trend burning_db 1 1800 else None)))
          (brc_error_budget_remaining c)
          (of_int ((case availability_target burning_db 1 of None \<Rightarrow> 30
                    | Some t \<Rightarrow> slo_window_days t) * 24))
          1800 = Inr (Some 0, Some 1800)"
    by (simp add: v burning_db_trend burning_db_target trend_adjustment_def exhaustion_def)
  from forecast_exhaustion_returns [OF burning_db_service(1) c this] show ?thesis .
qed

text \<open>Checks on the burning service at second 1800 return.\<close>

lemma burning_db_returns:
  assumes "find (\<lambda>s. svc_name s = req_service_name req) (services burning_db) = Some api_service"
      and "(if req_deployment_id req = [] then uuid_str (uuid4 rnd) else req_deployment_id req)
             \<notin> set (map dep_deployment_id (deployments burning_db))"
  shows "\<exists>resp db'. check_release default_settings burning_db req 1800 rnd = Inr (resp, db')"
proof -
  have i: "svc_id api_service = 1" by (simp add: api_service_def)
  from burning_db_hour obtain c where
    c: "compute_burn_rate default_settings burning_db (svc_id api_service) 60 1800 = Inr c"
    unfolding i by blast
  from burning_db_forecast obtain fc where
    fc: "forecast_exhaustion default_settings burning_db (svc_id api_service) True 1800 = Inr fc"
    unfolding i by blast
  have w: "get_weighted_burn_rate default_settings burning_db (svc_id api_service) 1800
             = Inr (7 / 4, FREEZE)"
    unfolding i by (rule burning_db_weighted)
  from check_release_returns [OF assms c w fc] show ?thesis .
qed

lemma healthy_db_name:
  "find (\<lambda>s. svc_name s = ''api-gateway'') (services healthy_db) = Some api_service"
  "deployments healthy_db = []"
  by (simp_all add: healthy_db_def idle_db_def empty_db_def api_service_def)

lemma healthy_db_rows2:
  "window_rows healthy_db 1 1500 1800 = []"
  "window_rows healthy_db 1 (- 84600) 1800 = [metric_row 1000 600000 120]"
  by (simp_all add: window_rows_def healthy_db_def idle_db_def empty_db_def metric_row_def)

lemma healthy_db_totals2:
  "window_totals healthy_db 1 1500 1800 = (None, None)"
  "window_totals healthy_db 1 (- 84600) 1800 = (Some 600000, Some 120)"
  by (simp_all add: window_totals_def healthy_db_rows2 metric_row_def sql_sum_def)

lemma healthy_db_sums2:
  "window_sums_in_range healthy_db 1 1500 1800"
  "window_sums_in_range healthy_db 1 (- 84600) 1800"
  by (simp_all add: window_sums_in_range_def healthy_db_rows2 metric_row_def)

lemma healthy_db_windows:
  "\<exists>c. compute_burn_rate gate_settings healthy_db 1 5 1800 = Inr c
        \<and> brc_burn_rate c = 0 \<and> brc_risk_level c = SAFE"
  "\<exists>c. compute_burn_rate gate_settings healthy_db 1 60 1800 = Inr c
        \<and> brc_burn_rate c = 1 / 5 \<and> brc_risk_level c = SAFE"
  "\<exists>c. compute_burn_rate gate_settings healthy_db 1 1440 1800 = Inr c
        \<and> brc_burn_rate c = 1 / 5 \<and> brc_risk_level c = SAFE"
  by (simp_all add: compute_burn_rate_def healthy_db_service healthy_db_target healthy_db_totals
      healthy_db_totals2 healthy_db_sums healthy_db_sums2 datetime_minus_eval Let_def
      classify_risk_def gate_settings_def default_settings_def
      py_round_eval py_round_eval2 py_round_zero)

lemma healthy_db_hour:
  "\<exists>c. compute_burn_rate gate_settings healthy_db 1 60 1800 = Inr c
        \<and> brc_burn_rate c = 1 / 5 \<and> brc_error_budget_remaining c = 80"
  by (simp add: compute_burn_rate_def healthy_db_service healthy_db_target healthy_db_totals
      healthy_db_sums datetime_minus_eval Let_def classify_risk_def gate_settings_def
      default_settings_def py_round_eval py_round_eval2 py_round_zero)

lemma healthy_db_trend: "calculate_trend healthy_db 1 1800 = None"
  by (simp add: calculate_trend_def trend_history_def healthy_db_def idle_db_def empty_db_def)

lemma healthy_db_forecast:
  "\<exists>fc. forecast_exhaustion gate_settings healthy_db 1 True 1800 = Inr fc"
proof -
  from healthy_db_hour obtain c where
    c: "compute_burn_rate gate_settings healthy_db 1 60 1800 = Inr c"
    and v: "brc_burn_rate c = 1 / 5" "brc_error_budget_remaining c = 80"
    by blast
  have "exhaustion
          (fst (trend_adjustment (brc_burn_rate c) True
                  (if True then calculate_trend healthy_db 1 1800 else None)))
          (brc_error_budget_remaining c)
          (of_int ((case availability_target healthy_db 1 of None \<Rightarrow> 30
                    | Some t \<Rightarrow> slo_window_days t) * 24))
          1800 = Inr (Some 2880, Some 10369800)"
    by (simp add: v healthy_db_trend healthy_db_target trend_adjustment_def exhaustion_def
        py_round_eval Let_def datetime_plus_eval)
  from forecast_exhaustion_returns [OF healthy_db_service c this] show ?thesis .
qed

lemma healthy_db_weighted:
  "get_weighted_burn_rate gate_settings healthy_db 1 1800 = Inr (7 / 50, SAFE)"
proof -
  from healthy_db_windows obtain c5 c60 c1440 where
    c: "compute_burn_rate gate_settings healthy_db 1 5 1800 = Inr c5"
       "compute_burn_rate gate_settings healthy_db 1 60 1800 = Inr c60"
       "compute_burn_rate gate_settings healthy_db 1 1440 1800 = Inr c1440"
    and v: "brc_burn_rate c5 = 0" "brc_risk_level c5 = SAFE"
       "brc_burn_rate c60 = 1 / 5" "brc_risk_level c60 = SAFE"
       "brc_burn_rate c1440 = 1 / 5" "brc_risk_level c1440 = SAFE"
    by blast
  show ?thesis
    by (simp add: get_weighted_burn_rate_def compute_all_windows_def WINDOW_CONFIGS_def
        weighted_step_def Let_def c v py_round_eval2)
qed

text \<open>Checks on the healthy service at second 1800, with the lowered threshold, return.\<close>

lemma healthy_db_returns:
  assumes "find (\<lambda>s. svc_name s = req_service_name req) (services healthy_db) = Some api_service"
      and "(if req_deployment_id req = [] then uuid_str (uuid4 rnd) else req_deployment_id req)
             \<notin> set (map dep_deployment_id (deployments healthy_db))"
  shows "\<exists>resp db'. check_release gate_settings healthy_db req 1800 rnd = Inr (resp, db')"
proof -
  have i: "svc_id api_service = 1" by (simp add: api_service_def)
  from healthy_db_hour obtain c where
    c: "compute_burn_rate gate_settings healthy_db (svc_id api_service) 60 1800 = Inr c"
    unfolding i by blast
  from healthy_db_forecast obtain fc where
    fc: "forecast_exhaustion gate_settings healthy_db (svc_id api_service) True 1800 = Inr fc"
    unfolding i by blast
  have w: "get_weighted_burn_rate gate_settings healthy_db (svc_id api_service) 1800
             = Inr (7 / 50, SAFE)"
    unfolding i by (rule healthy_db_weighted)
  from check_release_returns [OF assms c w fc] show ?thesis .
qed

theorem check_release_override_witness:
  "(\<exists>resp db'. check_release default_settings burning_db override_request 1800 0 = Inr (resp, db')
        \<and> resp_allowed resp \<and> prefix ''OVERRIDE:'' (resp_reason resp))
   \<and> (\<exists>resp db'. check_release default_settings burning_db plain_request 1800 0 = Inr (resp, db')
        \<and> \<not> resp_allowed resp)
   \<and> (\<exists>resp db'. check_release gate_settings healthy_db override_request 1800 0 = Inr (resp, db')
        \<and> \<not> resp_allowed resp)"
proof (intro conjI)
  have s: "find (\<lambda>s. svc_name s = req_service_name override_request) (services burning_db)
             = Some api_service"
    by (simp add: override_request_def burning_db_service)
  have f: "(if req_deployment_id override_request = [] then uuid_str (uuid4 0)
            else req_deployment_id override_request) \<notin> set (map dep_deployment_id (deployments burning_db))"
    by (simp add: burning_db_service)
  from burning_db_returns [OF s f] obtain resp db' where
    r: "check_release default_settings burning_db override_request 1800 0 = Inr (resp, db')" by blast
  have w: "get_weighted_burn_rate default_settings burning_db (svc_id api_service) 1800
             = Inr (7 / 4, FREEZE)"
    by (simp add: api_service_def burning_db_weighted)
  from check_release_override [OF s w r]
  have "resp_allowed resp \<and> prefix ''OVERRIDE:'' (resp_reason resp)"
    by (simp add: override_request_def)
  with r show "\<exists>resp db'. check_release default_settings burning_db override_request 1800 0 = Inr (resp, db')
        \<and> resp_allowed resp \<and> prefix ''OVERRIDE:'' (resp_reason resp)" by blast
next
  have s: "find (\<lambda>s. svc_name s = req_service_name plain_request) (services burning_db)
             = Some api_service"
    by (simp add: plain_request_def override_request_def burning_db_service)
  have f: "(if req_deployment_id plain_request = [] then uuid_str (uuid4 0)
            else req_deployment_id plain_request) \<notin> set (map dep_deployment_id (deployments burning_db))"
    by (simp add: burning_db_service)
  from burning_db_returns [OF s f] obtain resp db' where
    r: "check_release default_settings burning_db plain_request 1800 0 = Inr (resp, db')" by blast
  have w: "get_weighted_burn_rate default_settings burning_db (svc_id api_service) 1800
             = Inr (7 / 4, FREEZE)"
    by (simp add: api_service_def burning_db_weighted)
  from check_release_override [OF s w r]
  have "\<not> resp_allowed resp"
    by (simp add: plain_request_def override_request_def)
  with r show "\<exists>resp db'. check_release default_settings burning_db plain_request 1800 0 = Inr (resp, db')
        \<and> \<not> resp_allowed resp" by blast
next
  have s: "find (\<lambda>s. svc_name s = req_service_name override_request) (services healthy_db)
             = Some api_service"
    by (simp add: override_request_def healthy_db_name)
  have f: "(if req_deployment_id override_request = [] then uuid_str (uuid4 0)
            else req_deployment_id override_request) \<notin> set (map dep_deployment_id (deployments healthy_db))"
    by (simp add: healthy_db_name)
  from healthy_db_returns [OF s f] obtain resp db' where
    r: "check_release gate_settings healthy_db override_request 1800 0 = Inr (resp, db')" by blast
  have w: "get_weighted_burn_rate gate_settings healthy_db (svc_id api_service) 1800
             = Inr (7 / 50, SAFE)"
    by (simp add: api_service_def healthy_db_weighted)
  from check_release_override [OF s w r]
  have "\<not> resp_allowed resp"
    by (simp add: gate_settings_def default_settings_def)
  with r show "\<exists>resp db'. check_release gate_settings healthy_db override_request 1800 0 = Inr (resp, db')
        \<and> \<not> resp_allowed resp" by blast
qed

text \<open>
  C1, as the claim states it, fails: a check for a service that is not registered
  returns its response without writing a Deployment row.
\<close>

theorem check_release_unknown_counterexample:
  "check_release default_settings empty_db plain_request 1800 0 = Inr (unknown_response, empty_db)
   \<and> deployments empty_db = []"
  by (simp add: check_release_def empty_db_def plain_request_def override_request_def unknown_response_def)

theorem check_release_records_witness:
  "(\<exists>resp. check_release default_settings empty_db plain_request 1800 0 = Inr (resp, empty_db)
        \<and> \<not> resp_allowed resp)
   \<and> (\<exists>resp db' d. check_release default_settings burning_db plain_request 1800 0 = Inr (resp, db')
        \<and> db' = burning_db\<lparr>deployments := [d]\<rparr>
        \<and> dep_allowed d = resp_allowed resp
        \<and> (dep_status d = ''approved'') = resp_allowed resp
        \<and> dep_blocked_reason d = (if resp_allowed resp then None else Some (resp_reason resp)))"
proof (intro conjI)
  have n: "find (\<lambda>s. svc_name s = req_service_name plain_request) (services empty_db) = None"
    by (simp add: empty_db_def)
  from check_release_records [of plain_request empty_db default_settings 1800 0] n
  show "\<exists>resp. check_release default_settings empty_db plain_request 1800 0 = Inr (resp, empty_db)
        \<and> \<not> resp_allowed resp" by blast
next
  have s: "find (\<lambda>s. svc_name s = req_service_name plain_request) (services burning_db)
             = Some api_service"
    by (simp add: plain_request_def override_request_def burning_db_service)
  have f: "(if req_deployment_id plain_request = [] then uuid_str (uuid4 0)
            else req_deployment_id plain_request) \<notin> set (map dep_deployment_id (deployments burning_db))"
    by (simp add: burning_db_service)
  from burning_db_returns [OF s f] obtain resp db' where
    r: "check_release default_settings burning_db plain_request 1800 0 = Inr (resp, db')" by blast
  from check_release_records [of plain_request burning_db default_settings 1800 0 api_service resp db'] s r
  obtain d where d: "db' = burning_db\<lparr>deployments := deployments burning_db @ [d]\<rparr>"
    "dep_allowed d = resp_allowed resp" "(dep_status d = ''approved'') = resp_allowed resp"
    "dep_blocked_reason d = (if resp_allowed resp then None else Some (resp_reason resp))"
    by blast
  from d(1) have e: "db' = burning_db\<lparr>deployments := [d]\<rparr>" by (simp add: burning_db_service)
  show "\<exists>resp db' d. check_release default_settings burning_db plain_request 1800 0 = Inr (resp, db')
        \<and> db' = burning_db\<lparr>deployments := [d]\<rparr>
        \<and> dep_allowed d = resp_allowed resp
        \<and> (dep_status d = ''approved'') = resp_allowed resp
        \<and> dep_blocked_reason d = (if resp_allowed resp then None else Some (resp_reason resp))"
    by (rule exI [of _ resp], rule exI [of _ db'], rule exI [of _ d]) (simp only: r e d(2-4) simp_thms)
qed

theorem deployment_id_nonempty_witness:
  "\<exists>resp db' d. check_release default_settings burning_db no_id_request 1800 0 = Inr (resp, db')
      \<and> db' = burning_db\<lparr>deployments := [d]\<rparr>
      \<and> dep_deployment_id d = uuid_str (uuid4 0)
      \<and> dep_deployment_id d \<noteq> []
      \<and> resp_deployment_id resp = []"
proof -
  have s: "find (\<lambda>s. svc_name s = req_service_name no_id_request) (services burning_db)
             = Some api_service"
    by (simp add: no_id_request_def plain_request_def override_request_def burning_db_service)
  have f: "(if req_deployment_id no_id_request = [] then uuid_str (uuid4 0)
            else req_deployment_id no_id_request) \<notin> set (map dep_deployment_id (deployments burning_db))"
    by (simp add: burning_db_service)
  have e: "req_deployment_id no_id_request = []" by (simp add: no_id_request_def)
  from burning_db_returns [OF s f] obtain resp db' where
    r: "check_release default_settings burning_db no_id_request 1800 0 = Inr (resp, db')" by blast
  from deployment_id_nonempty [OF s r] e obtain d where
    d: "db' = burning_db\<lparr>deployments := deployments burning_db @ [d]\<rparr>"
    "dep_deployment_id d \<noteq> []" "dep_deployment_id d = uuid_str (uuid4 0)"
    "resp_deployment_id resp = []"
    by auto
  from d(1) have e: "db' = burning_db\<lparr>deployments := [d]\<rparr>" by (simp add: burning_db_service)
  show ?thesis
    by (rule exI [of _ resp], rule exI [of _ db'], rule exI [of _ d])
       (simp only: r e d(3-4) uuid_str_nonempty simp_thms not_False_eq_True)
qed

section \<open>Alert cooldown\<close>

lemma is_in_cooldown_raises: "is_in_cooldown cfg db sid ty now \<noteq> Inr b"
  by (simp add: is_in_cooldown_def split: sum.splits)

lemma is_in_cooldown_error:
  "is_in_cooldown cfg db sid ty now = Inl e \<Longrightarrow> e = OverflowError \<or> e = AttributeError"
  by (auto simp: is_in_cooldown_def split: sum.splits dest: datetime_minus_error)

text \<open>No call of \<open>create_alert\<close> returns, whether or not a similar alert is recent.\<close>

lemma create_alert_raises: "create_alert cfg db sid ty ch vars md now \<noteq> Inr r"
  by (simp add: create_alert_def is_in_cooldown_raises split: option.splits sum.splits)

lemma budget_alert_cases:
  "budget_alert cfg db s b now = Inr r \<Longrightarrow> r = (None, db)"
  by (simp add: budget_alert_def create_alert_raises split: if_splits sum.splits)

text \<open>\<open>evaluate_and_alert\<close> swallows the exception: it returns no alert and writes none.\<close>

lemma evaluate_and_alert_nothing: "evaluate_and_alert cfg db sid now = ([], db)"
proof (cases "find (\<lambda>s. svc_id s = sid) (services db)")
  case None
  then show ?thesis by (simp add: evaluate_and_alert_def)
next
  case (Some s)
  show ?thesis
  proof (cases "compute_burn_rate cfg db sid 60 now")
    case (Inl e)
    with Some show ?thesis by (simp add: evaluate_and_alert_def)
  next
    case b: (Inr b)
    show ?thesis
    proof (cases "budget_alert cfg db s b now")
      case (Inl e)
      with Some b show ?thesis by (simp add: evaluate_and_alert_def)
    next
      case (Inr r)
      from budget_alert_cases [OF Inr] have r: "r = (None, db)" .
      show ?thesis
      proof (cases "create_alert cfg db sid ''burn_rate_high'' UI
                      [(''service'', svc_name s),
                       (''rate'', fmt_fixed 1 (brc_burn_rate b)),
                       (''risk'', str_upper (risk_value (brc_risk_level b)))]
                      (Some [(''alert_type'', ''burn_rate_high'')]) now")
        case (Inl e)
        with Some b Inr r show ?thesis by (simp add: evaluate_and_alert_def)
      next
        case c: (Inr c)
        with create_alert_raises show ?thesis by blast
      qed
    qed
  qed
qed

lemma evaluate_sequence_nothing: "evaluate_sequence cfg db calls = db"
  by (induction calls) (simp_all add: evaluate_and_alert_nothing)

lemma cooldown_start_eval: "datetime_minus 2100 900 = Inr 1200"
  by (simp add: datetime_minus_def timedelta_def datetime_add_def datetime_min_def
      datetime_max_def)

text \<open>
  C3 fails in the code. At second 2100 the alerts table holds a \<open>burn_rate_high\<close> alert of service 1 from
  second 1800, inside the cooldown of 15 minutes. The call of \<open>create_alert\<close> for the
  same service and alert type does not return a null result: it raises
  \<open>AttributeError\<close>. The first \<open>evaluate_and_alert\<close> on the burning service, with an
  empty alerts table, persists no alert either, and neither does a second one five
  minutes later.
\<close>

theorem create_alert_cooldown_raises:
  "alerts cooling_db = [recent_alert]
   \<and> al_service_id recent_alert = 1
   \<and> al_alert_metadata recent_alert = Some [(''alert_type'', ''burn_rate_high'')]
   \<and> datetime_minus 2100 (of_int (ALERT_COOLDOWN_MINUTES default_settings) * 60) = Inr 1200
   \<and> al_timestamp recent_alert \<ge> 1200
   \<and> is_in_cooldown default_settings cooling_db 1 ''burn_rate_high'' 2100 = Inl AttributeError
   \<and> create_alert default_settings cooling_db 1 ''burn_rate_high'' UI burn_vars
        (Some [(''alert_type'', ''burn_rate_high'')]) 2100 = Inl AttributeError
   \<and> alerts burning_db = []
   \<and> evaluate_and_alert default_settings burning_db 1 1800 = ([], burning_db)
   \<and> evaluate_sequence default_settings burning_db [(1, 1800), (1, 2100)] = burning_db"
proof -
  have c: "datetime_minus 2100 (of_int (ALERT_COOLDOWN_MINUTES default_settings) * 60) = Inr 1200"
    by (simp add: default_settings_def cooldown_start_eval)
  have i: "is_in_cooldown default_settings cooling_db 1 ''burn_rate_high'' 2100
             = Inl AttributeError"
    by (simp add: is_in_cooldown_def c)
  have t: "map_of ALERT_TEMPLATES ''burn_rate_high'' \<noteq> None"
    by (simp add: ALERT_TEMPLATES_def)
  then obtain tpl where tpl: "map_of ALERT_TEMPLATES ''burn_rate_high'' = Some tpl" by blast
  have a: "create_alert default_settings cooling_db 1 ''burn_rate_high'' UI burn_vars
             (Some [(''alert_type'', ''burn_rate_high'')]) 2100 = Inl AttributeError"
    by (simp add: create_alert_def tpl i)
  have d: "alerts cooling_db = [recent_alert]" "al_service_id recent_alert = 1"
    "al_alert_metadata recent_alert = Some [(''alert_type'', ''burn_rate_high'')]"
    "al_timestamp recent_alert \<ge> 1200" "alerts burning_db = []"
    by (simp_all add: cooling_db_def recent_alert_def burning_db_def idle_db_def empty_db_def)
  from c i a d show ?thesis
    by (simp add: evaluate_and_alert_nothing evaluate_sequence_nothing)
qed

section \<open>Metric ingestion\<close>

lemma validate_request_Cons:
  "validate_MetricsIngestRequest (snap # rest) =
     (if ms_total_requests snap \<ge> 0 \<and> ms_error_count snap \<ge> 0
        then (case validate_MetricsIngestRequest rest of Inl e \<Rightarrow> Inl e | Inr vs \<Rightarrow> Inr (snap # vs))
      else Inl ValidationError)"
  by (simp add: validate_MetricSnapshot_def)

lemma validate_request_cases:
  "validate_MetricsIngestRequest body =
     (if list_all (\<lambda>snap. ms_total_requests snap \<ge> 0 \<and> ms_error_count snap \<ge> 0) body
        then Inr body else Inl ValidationError)"
proof (induction body)
  case Nil
  show ?case by simp
next
  case (Cons snap rest)
  show ?case unfolding validate_request_Cons Cons.IH by simp
qed

lemma validate_request_rejects:
  assumes "\<exists>snap\<in>set body. ms_total_requests snap < 0 \<or> ms_error_count snap < 0"
  shows "validate_MetricsIngestRequest body = Inl ValidationError"
proof -
  from assms obtain snap where "snap \<in> set body"
    "\<not> (ms_total_requests snap \<ge> 0 \<and> ms_error_count snap \<ge> 0)" by force
  then have "\<not> list_all (\<lambda>snap. ms_total_requests snap \<ge> 0 \<and> ms_error_count snap \<ge> 0) body"
    unfolding list_all_iff by blast
  then show ?thesis by (simp add: validate_request_cases)
qed

lemma ingest_one_metrics:
  assumes "m \<in> set (metrics (ingest_one db metric))"
  shows "m \<in> set (metrics db)
         \<or> (m_total_requests m = ms_total_requests metric \<and> m_error_count m = ms_error_count metric)"
  using assms by (auto simp: ingest_one_def Let_def split: option.splits)

lemma ingest_one_length: "length (metrics (ingest_one db metric)) = length (metrics db) + 1"
  by (simp add: ingest_one_def Let_def split: option.splits)

lemma ingest_one_services:
  "set (services db) \<subseteq> set (services (ingest_one db metric))"
  "ms_service metric \<in> svc_name ` set (services (ingest_one db metric))"
proof -
  show "set (services db) \<subseteq> set (services (ingest_one db metric))"
    by (auto simp: ingest_one_def Let_def split: option.splits)
  show "ms_service metric \<in> svc_name ` set (services (ingest_one db metric))"
  proof (cases "find (\<lambda>s. svc_name s = ms_service metric) (services db)")
    case None
    then show ?thesis by (simp add: ingest_one_def Let_def)
  next
    case (Some s)
    then have "s \<in> set (services db)" "svc_name s = ms_service metric"
      by (auto simp: find_Some_iff)
    then have "ms_service metric \<in> svc_name ` set (services db)" by force
    with Some show ?thesis by (simp add: ingest_one_def Let_def)
  qed
qed

lemma ingest_loop_result:
  "fst (ingest_loop db p e ms) = (p + int (length ms), e)"
  by (induction ms arbitrary: db p) simp_all

lemma ingest_loop_metrics:
  assumes "\<forall>m\<in>set (metrics db). 0 \<le> m_total_requests m \<and> 0 \<le> m_error_count m"
      and "list_all (\<lambda>snap. ms_total_requests snap \<ge> 0 \<and> ms_error_count snap \<ge> 0) ms"
  shows "\<forall>m\<in>set (metrics (snd (ingest_loop db p e ms))). 0 \<le> m_total_requests m \<and> 0 \<le> m_error_count m"
  using assms
proof (induction ms arbitrary: db p)
  case Nil
  then show ?case by simp
next
  case (Cons snap ms)
  have "\<forall>m\<in>set (metrics (ingest_one db snap)). 0 \<le> m_total_requests m \<and> 0 \<le> m_error_count m"
  proof
    fix m assume "m \<in> set (metrics (ingest_one db snap))"
    from ingest_one_metrics [OF this] Cons.prems
    show "0 \<le> m_total_requests m \<and> 0 \<le> m_error_count m" by auto
  qed
  moreover from Cons.prems(2)
  have "list_all (\<lambda>snap. ms_total_requests snap \<ge> 0 \<and> ms_error_count snap \<ge> 0) ms" by simp
  ultimately show ?case using Cons.IH [of "ingest_one db snap" "p + 1"] by simp
qed

lemma ingest_loop_length:
  "length (metrics (snd (ingest_loop db p e ms))) = length (metrics db) + length ms"
  by (induction ms arbitrary: db p) (simp_all add: ingest_one_length)

lemma ingest_loop_services_mono:
  "set (services db) \<subseteq> set (services (snd (ingest_loop db p e ms)))"
proof (induction ms arbitrary: db p)
  case Nil
  show ?case by simp
next
  case (Cons snap ms)
  from Cons [of "ingest_one db snap" "p + 1"] ingest_one_services(1) [of db snap]
  show ?case by auto
qed

lemma ingest_loop_services:
  "\<forall>snap\<in>set ms. ms_service snap \<in> svc_name ` set (services (snd (ingest_loop db p e ms)))"
proof (induction ms arbitrary: db p)
  case Nil
  show ?case by simp
next
  case (Cons snap ms)
  from ingest_one_services(2) [of snap db]
    ingest_loop_services_mono [of "ingest_one db snap" "p + 1" e ms]
  have "ms_service snap \<in> svc_name ` set (services (snd (ingest_loop (ingest_one db snap) (p + 1) e ms)))"
    by auto
  with Cons [of "ingest_one db snap" "p + 1"] show ?case by simp
qed

lemma ghost_ingest_eval: "ingest_endpoint empty_db [ghost_snapshot] = Inr ((1, 0), ghost_db)"
  by (simp add: ingest_endpoint_def validate_request_cases ingest_metrics_def ingest_one_def
      next_service_id_def Let_def ghost_snapshot_def ghost_db_def empty_db_def)

text \<open>
  C9, as the claim states it, fails: a snapshot that names an unregistered service and
  reports 5 errors in 3 requests is accepted; the service is created and the row stored.
\<close>

theorem ingest_accepts_counterexample:
  "ingest_endpoint empty_db [ghost_snapshot] = Inr ((1, 0), ghost_db)
   \<and> services empty_db = []
   \<and> map svc_name (services ghost_db) = [''ghost'']
   \<and> map m_total_requests (metrics ghost_db) = [3]
   \<and> map m_error_count (metrics ghost_db) = [5]"
  using ghost_ingest_eval by (simp add: ghost_db_def empty_db_def)

text \<open>
  C9, amended. The ingestion endpoint rejects a batch that contains a snapshot with a
  negative \<open>total_requests\<close> or a negative \<open>error_count\<close>, with a validation error and no
  state change. A batch that is accepted is stored whole, one row per snapshot; if the
  stored rows had non-negative counts before, they all have afterwards; and every service
  that the batch names is registered afterwards (found or created).
\<close>

theorem ingest_validation:
  "((\<exists>snap\<in>set body. ms_total_requests snap < 0 \<or> ms_error_count snap < 0) \<longrightarrow>
      ingest_endpoint db body = Inl ValidationError)
   \<and> (ingest_endpoint db body = Inr (res, db') \<longrightarrow>
        res = (int (length body), 0)
        \<and> length (metrics db') = length (metrics db) + length body
        \<and> ((\<forall>m\<in>set (metrics db). 0 \<le> m_total_requests m \<and> 0 \<le> m_error_count m) \<longrightarrow>
             (\<forall>m\<in>set (metrics db'). 0 \<le> m_total_requests m \<and> 0 \<le> m_error_count m))
        \<and> (\<forall>snap\<in>set body. ms_service snap \<in> svc_name ` set (services db')))"
proof (intro conjI impI)
  assume "\<exists>snap\<in>set body. ms_total_requests snap < 0 \<or> ms_error_count snap < 0"
  from validate_request_rejects [OF this]
  show "ingest_endpoint db body = Inl ValidationError" by (simp add: ingest_endpoint_def)
next
  assume a: "ingest_endpoint db body = Inr (res, db')"
  then have v: "list_all (\<lambda>snap. ms_total_requests snap \<ge> 0 \<and> ms_error_count snap \<ge> 0) body"
    and r: "ingest_loop db 0 0 body = (res, db')"
    by (simp_all add: ingest_endpoint_def validate_request_cases ingest_metrics_def
        split: if_splits)
  from r have res: "res = fst (ingest_loop db 0 0 body)" and db': "db' = snd (ingest_loop db 0 0 body)"
    by simp_all
  show "res = (int (length body), 0)" unfolding res by (simp add: ingest_loop_result)
  show "length (metrics db') = length (metrics db) + length body"
    unfolding db' by (rule ingest_loop_length)
  show "\<forall>snap\<in>set body. ms_service snap \<in> svc_name ` set (services db')"
    unfolding db' by (rule ingest_loop_services)
  assume "\<forall>m\<in>set (metrics db). 0 \<le> m_total_requests m \<and> 0 \<le> m_error_count m"
  from ingest_loop_metrics [OF this v]
  show "\<forall>m\<in>set (metrics db'). 0 \<le> m_total_requests m \<and> 0 \<le> m_error_count m"
    unfolding db' .
qed

theorem ingest_validation_witness:
  "ingest_endpoint empty_db [negative_snapshot] = Inl ValidationError
   \<and> ingest_endpoint empty_db [ghost_snapshot] = Inr ((1, 0), ghost_db)
   \<and> length (metrics ghost_db) = 1
   \<and> list_all (\<lambda>m. 0 \<le> m_total_requests m \<and> 0 \<le> m_error_count m) (metrics ghost_db)
   \<and> ''ghost'' \<in> svc_name ` set (services ghost_db)"
proof -
  have n: "\<exists>snap\<in>set [negative_snapshot]. ms_total_requests snap < 0 \<or> ms_error_count snap < 0"
    by (simp add: negative_snapshot_def)
  have e: "\<forall>m\<in>set (metrics empty_db). 0 \<le> m_total_requests m \<and> 0 \<le> m_error_count m"
    by (simp add: empty_db_def)
  from ingest_validation [of "[negative_snapshot]" empty_db] n
  have 1: "ingest_endpoint empty_db [negative_snapshot] = Inl ValidationError" by blast
  from ingest_validation [of "[ghost_snapshot]" empty_db "(1, 0)" ghost_db] ghost_ingest_eval e
  have 2: "length (metrics ghost_db) = length (metrics empty_db) + length [ghost_snapshot]"
    and 3: "\<forall>m\<in>set (metrics ghost_db). 0 \<le> m_total_requests m \<and> 0 \<le> m_error_count m"
    and 4: "\<forall>snap\<in>set [ghost_snapshot]. ms_service snap \<in> svc_name ` set (services ghost_db)"
    by blast+
  from 1 2 3 4 ghost_ingest_eval show ?thesis
    by (simp add: list_all_iff empty_db_def ghost_snapshot_def)
qed

end
